theory Spec2Isabelle
  imports Complex_Main "HOL-Library.Char_ord"
begin

section \<open>Strings and numbers\<close>

text \<open>
  The development follows \<^verbatim>\<open>tracker/utils/pdf_text_extractor.py\<close>.
  A byte buffer is a list of \<^typ>\<open>char\<close>. A Python string is a list of
  \<^typ>\<open>char\<close> too, each one a code point below 256: the texts are Latin-1 texts.
\<close>

type_synonym bytes = "char list"

subsection \<open>Strings\<close>

definition is_upper :: "char \<Rightarrow> bool" where
  "is_upper c = (CHR ''A'' \<le> c \<and> c \<le> CHR ''Z'')"

definition is_lower :: "char \<Rightarrow> bool" where
  "is_lower c = (CHR ''a'' \<le> c \<and> c \<le> CHR ''z'')"

definition is_digit :: "char \<Rightarrow> bool" where
  "is_digit c = (CHR ''0'' \<le> c \<and> c \<le> CHR ''9'')"

text \<open>An ASCII letter and its other case differ in the bit 0x20. \<^verbatim>\<open>lower\<close> and
  \<^verbatim>\<open>upper\<close> change the ASCII letters only.\<close>

definition lower_char :: "char \<Rightarrow> char" where
  "lower_char c =
     (if is_upper c
      then (case c of Char b0 b1 b2 b3 b4 b5 b6 b7 \<Rightarrow> Char b0 b1 b2 b3 b4 True b6 b7)
      else c)"

definition upper_char :: "char \<Rightarrow> char" where
  "upper_char c =
     (if is_lower c
      then (case c of Char b0 b1 b2 b3 b4 b5 b6 b7 \<Rightarrow> Char b0 b1 b2 b3 b4 False b6 b7)
      else c)"

definition lower :: "string \<Rightarrow> string" where
  "lower s = map lower_char s"

definition upper :: "string \<Rightarrow> string" where
  "upper s = map upper_char s"

definition endswith :: "string \<Rightarrow> string \<Rightarrow> bool" where
  "endswith s suf = (length suf \<le> length s \<and> drop (length s - length suf) s = suf)"

text \<open>The characters \<^verbatim>\<open>str.strip()\<close> removes and \<^verbatim>\<open>\s\<close> matches, below 256:
  tab, line feed, vertical tab, form feed, carriage return (0x09..0x0D), the four separators
  0x1C..0x1F, the space, the next-line character 0x85 and the no-break space 0xA0.\<close>

definition is_space :: "char \<Rightarrow> bool" where
  "is_space c =
     ((CHR 0x09 \<le> c \<and> c \<le> CHR 0x0D) \<or> (CHR 0x1C \<le> c \<and> c \<le> CHR 0x20)
      \<or> c = CHR 0x85 \<or> c = CHR 0xA0)"

definition lstrip :: "string \<Rightarrow> string" where
  "lstrip s = dropWhile is_space s"

definition rstrip :: "string \<Rightarrow> string" where
  "rstrip s = rev (dropWhile is_space (rev s))"

definition strip :: "string \<Rightarrow> string" where
  "strip s = rstrip (lstrip s)"

subsection \<open>Decimals and floats\<close>

text \<open>
  A \<^verbatim>\<open>Decimal\<close> of the program is an exact rational or an infinity. A float is a
  binary64 number: a rational that binary64 represents, or an infinity. The sign of a zero is
  not kept, and the program makes no NaN: its floats are read from digits, or are sums,
  differences and quotients of finite floats and small integers.
\<close>

datatype xrat = Finite rat | PInf | NInf

type_synonym decimal = xrat
type_synonym pyfloat = xrat

instantiation xrat :: linorder
begin

definition less_eq_xrat :: "xrat \<Rightarrow> xrat \<Rightarrow> bool" where
  "less_eq_xrat x y =
     (case x of
        NInf \<Rightarrow> True
      | PInf \<Rightarrow> y = PInf
      | Finite a \<Rightarrow> (case y of NInf \<Rightarrow> False | PInf \<Rightarrow> True | Finite b \<Rightarrow> a \<le> b))"

definition less_xrat :: "xrat \<Rightarrow> xrat \<Rightarrow> bool" where
  "less_xrat x y = (x \<le> y \<and> \<not> y \<le> x)"

instance
  by standard (auto simp: less_eq_xrat_def less_xrat_def split: xrat.splits)

end

text \<open>The number of digits of \<open>n\<close> in base \<open>b\<close>, and for a positive \<open>q\<close> the exponent \<open>e\<close>
  such that \<open>q\<close> is at least \<open>b\<close> to the power \<open>e\<close> and less than \<open>b\<close> to the power \<open>e + 1\<close>.\<close>

function digit_count :: "int \<Rightarrow> int \<Rightarrow> int" where
  "digit_count b n = (if n \<le> 0 \<or> b \<le> 1 then 0 else 1 + digit_count b (n div b))"
  by pat_completeness auto
termination
  by (relation "measure (\<lambda>(b, n). nat n)") (auto simp: int_div_less_self)

declare digit_count.simps [simp del]

definition floor_log :: "int \<Rightarrow> rat \<Rightarrow> int" where
  "floor_log b q =
     (case quotient_of q of
        (n, d) \<Rightarrow>
          (let e = digit_count b n - digit_count b d
           in if power_int (of_int b) e \<le> q then e else e - 1))"

text \<open>To the nearest integer, a tie to the even one.\<close>

definition round_half_even :: "rat \<Rightarrow> int" where
  "round_half_even x =
     (let f = \<lfloor>x\<rfloor>; d = x - of_int f
      in if d < 1 / 2 then f else if 1 / 2 < d then f + 1 else if even f then f else f + 1)"

text \<open>
  Rounding to binary64. From 2 to the power \<open>e\<close> up to 2 to the power \<open>e + 1\<close> the floats are
  the multiples of 2 to the power \<open>e - 52\<close>, and below 2 to the power -1022 they are the
  multiples of 2 to the power -1074. A number is rounded to the nearest multiple, a tie to
  the even one; a result of magnitude 2 to the power 1024 or more is an infinity.
  \<^verbatim>\<open>float(s)\<close>, \<^verbatim>\<open>float(d)\<close> of a \<^verbatim>\<open>Decimal\<close> and the float operations
  round the exact result this way.
\<close>

definition binade :: "rat \<Rightarrow> int" where
  "binade q = max (floor_log 2 \<bar>q\<bar>) (- 1022)"

definition ulp :: "rat \<Rightarrow> rat" where
  "ulp q = power_int 2 (binade q - 52)"

definition round_to_ulp :: "rat \<Rightarrow> rat" where
  "round_to_ulp q = of_int (round_half_even (q / ulp q)) * ulp q"

definition float_of_rat :: "rat \<Rightarrow> pyfloat" where
  "float_of_rat q =
     (if q = 0 then Finite 0
      else
        (let r = round_to_ulp q
         in if power_int 2 1024 \<le> r then PInf
            else if r \<le> - power_int 2 1024 then NInf
            else Finite r))"

text \<open>\<^verbatim>\<open>float(d)\<close> of a \<^verbatim>\<open>Decimal\<close>\<close>

definition float_of_decimal :: "decimal \<Rightarrow> pyfloat" where
  "float_of_decimal d = (case d of Finite q \<Rightarrow> float_of_rat q | PInf \<Rightarrow> PInf | NInf \<Rightarrow> NInf)"

text \<open>\<^verbatim>\<open>x / d\<close> for a float \<open>x\<close> and a finite \<open>d\<close> other than zero.\<close>

definition float_div :: "pyfloat \<Rightarrow> rat \<Rightarrow> pyfloat" where
  "float_div x d =
     (case x of
        Finite a \<Rightarrow> float_of_rat (a / d)
      | PInf \<Rightarrow> if 0 < d then PInf else NInf
      | NInf \<Rightarrow> if 0 < d then NInf else PInf)"

text \<open>
  \<^verbatim>\<open>Decimal(str(x))\<close>. \<^verbatim>\<open>str\<close> writes a finite float with the fewest
  significant digits that read back as the same float, and of the decimals with that many
  digits the one nearest to the float, a tie to the even digit. \<open>candidates x n\<close> are the two
  decimals of \<open>n\<close> significant digits around \<open>x\<close>, the nearer first; seventeen digits always
  suffice for a float.
\<close>

definition candidates :: "rat \<Rightarrow> int \<Rightarrow> rat list" where
  "candidates x n =
     (let s = power_int 10 (floor_log 10 x - n + 1);
          m = x / s;
          near = round_half_even m;
          other = (if of_int near \<le> m then \<lfloor>m\<rfloor> + 1 else \<lfloor>m\<rfloor>)
      in [of_int near * s, of_int other * s])"

definition repr_pos :: "rat \<Rightarrow> rat" where
  "repr_pos x =
     (case filter (\<lambda>d. float_of_rat d = Finite x)
             (concat (map (candidates x)
                        [1, 2, 3, 4, 5, 6, 7, 8, 9, 10, 11, 12, 13, 14, 15, 16, 17])) of
        [] \<Rightarrow> x
      | d # _ \<Rightarrow> d)"

definition decimal_of_float :: "pyfloat \<Rightarrow> decimal" where
  "decimal_of_float x =
     (case x of
        Finite a \<Rightarrow> Finite (if a = 0 then 0 else if 0 < a then repr_pos a else - repr_pos (- a))
      | PInf \<Rightarrow> PInf
      | NInf \<Rightarrow> NInf)"

subsection \<open>Exceptions\<close>

text \<open>The one exception the number handling of the parsers lets out:
  \<^verbatim>\<open>int(x)\<close> raises \<^verbatim>\<open>OverflowError\<close> for an infinite float. A run of steps
  ends with the first exception.\<close>

datatype exn = OverflowError

definition and_then :: "exn + 'a \<Rightarrow> ('a \<Rightarrow> exn + 'b) \<Rightarrow> exn + 'b" where
  "and_then m f = (case m of Inl e \<Rightarrow> Inl e | Inr v \<Rightarrow> f v)"

text \<open>\<^verbatim>\<open>int(x)\<close> of a float: towards zero.\<close>

definition py_int :: "pyfloat \<Rightarrow> exn + int" where
  "py_int x =
     (case x of
        Finite a \<Rightarrow> Inr (if 0 \<le> a then \<lfloor>a\<rfloor> else \<lceil>a\<rceil>)
      | PInf \<Rightarrow> Inl OverflowError
      | NInf \<Rightarrow> Inl OverflowError)"


section \<open>Invoice text extraction: the orchestrating entry point\<close>

subsection \<open>Records of the parser and of the entry point\<close>

text \<open>A line item as both item extractors build it (a Python dict with these six keys).\<close>

record item =
  description :: "string option"
  code :: "string option"
  unit :: "string option"
  qty :: int
  rate :: "decimal option"
  item_value :: "decimal option"

text \<open>The dict returned by \<^verbatim>\<open>parse_invoice_data\<close>.\<close>

record parsed =
  p_invoice_no :: "string option"
  p_code_no :: "string option"
  p_date :: "string option"
  p_customer_name :: "string option"
  p_phone :: "string option"
  p_email :: "string option"
  p_address :: "string option"
  p_reference :: "string option"
  p_subtotal :: "decimal option"
  p_tax :: "decimal option"
  p_total :: "decimal option"
  p_items :: "item list"
  p_payment_method :: "string option"
  p_delivery_terms :: "string option"
  p_remarks :: "string option"
  p_attended_by :: "string option"
  p_kind_attention :: "string option"
  p_seller_name :: "string option"
  p_seller_address :: "string option"
  p_seller_phone :: "string option"
  p_seller_email :: "string option"
  p_seller_tax_id :: "string option"
  p_seller_vat_reg :: "string option"

text \<open>The \<^verbatim>\<open>header\<close> dict of the output record.\<close>

record header =
  h_invoice_no :: "string option"
  h_code_no :: "string option"
  h_date :: "string option"
  h_customer_name :: "string option"
  h_phone :: "string option"
  h_email :: "string option"
  h_address :: "string option"
  h_reference :: "string option"
  h_subtotal :: "pyfloat option"
  h_tax :: "pyfloat option"
  h_total :: "pyfloat option"
  h_payment_method :: "string option"
  h_delivery_terms :: "string option"
  h_remarks :: "string option"
  h_attended_by :: "string option"
  h_kind_attention :: "string option"

text \<open>An item of the output record: \<^verbatim>\<open>value\<close> defaults to \<^verbatim>\<open>0.0\<close>.\<close>

record formatted_item =
  f_description :: "string option"
  f_qty :: int
  f_unit :: "string option"
  f_code :: "string option"
  f_value :: pyfloat
  f_rate :: "pyfloat option"

datatype error_code =
  empty_file | image_file_not_supported | unsupported_file_type
  | pdf_extraction_failed | no_text_extracted | parsing_failed

text \<open>The output record. \<^verbatim>\<open>header\<close> is \<open>None\<close> for the empty dict \<^verbatim>\<open>{}\<close>
  of the failure records.\<close>

record result =
  success :: bool
  error :: "error_code option"
  message :: string
  ocr_available :: bool
  r_header :: "header option"
  r_items :: "formatted_item list"
  raw_text :: string

subsection \<open>Truthiness\<close>

definition truthy_str :: "string option \<Rightarrow> bool" where
  "truthy_str v = (case v of None \<Rightarrow> False | Some s \<Rightarrow> s \<noteq> [])"

text \<open>A \<^verbatim>\<open>Decimal\<close> or a float is false when it is zero.\<close>

definition truthy_num :: "xrat option \<Rightarrow> bool" where
  "truthy_num v = (case v of None \<Rightarrow> False | Some d \<Rightarrow> d \<noteq> Finite 0)"

text \<open>\<^verbatim>\<open>float(d) if d else None\<close>\<close>

definition float_if :: "decimal option \<Rightarrow> pyfloat option" where
  "float_if v = (if truthy_num v then map_option float_of_decimal v else None)"

subsection \<open>\<^verbatim>\<open>extract_from_bytes\<close>\<close>

definition failure :: "error_code \<Rightarrow> string \<Rightarrow> string \<Rightarrow> result" where
  "failure e msg txt =
     \<lparr>success = False, error = Some e, message = msg, ocr_available = False,
      r_header = None, r_items = [], raw_text = txt\<rparr>"

definition format_item :: "item \<Rightarrow> formatted_item" where
  "format_item it =
     \<lparr>f_description = description it, f_qty = qty it, f_unit = unit it, f_code = code it,
      f_value = (case float_if (item_value it) of None \<Rightarrow> Finite 0 | Some v \<Rightarrow> v),
      f_rate = float_if (rate it)\<rparr>"

definition make_header :: "parsed \<Rightarrow> header" where
  "make_header p =
     \<lparr>h_invoice_no = p_invoice_no p, h_code_no = p_code_no p, h_date = p_date p,
      h_customer_name = p_customer_name p, h_phone = p_phone p, h_email = p_email p,
      h_address = p_address p, h_reference = p_reference p,
      h_subtotal = float_if (p_subtotal p), h_tax = float_if (p_tax p),
      h_total = float_if (p_total p),
      h_payment_method = p_payment_method p, h_delivery_terms = p_delivery_terms p,
      h_remarks = p_remarks p, h_attended_by = p_attended_by p,
      h_kind_attention = p_kind_attention p\<rparr>"

definition is_pdf :: "bytes \<Rightarrow> string \<Rightarrow> bool" where
  "is_pdf file_bytes filename =
     (endswith (lower filename) ''.pdf''
      \<or> (length file_bytes > 4 \<and> take 4 file_bytes = ''%PDF''))"

definition image_extensions :: "string list" where
  "image_extensions = [''.jpg'', ''.jpeg'', ''.png'', ''.gif'', ''.tiff'', ''.bmp'']"

definition is_image :: "string \<Rightarrow> bool" where
  "is_image filename = list_ex (endswith (lower filename)) image_extensions"

text \<open>
  The three collaborators are parameters: \<open>pdf_text\<close> is \<^verbatim>\<open>extract_text_from_pdf\<close>
  (it raises, \<open>Inl\<close> of the exception's text, or returns the text), \<open>parse\<close> is
  \<^verbatim>\<open>parse_invoice_data\<close> (it raises or returns the parsed dict) and \<open>coord\<close> is
  \<^verbatim>\<open>_extract_items_with_coordinates\<close>, which catches its own exceptions.
\<close>

definition extract_from_bytes ::
  "(bytes \<Rightarrow> string + string) \<Rightarrow> (string \<Rightarrow> string + parsed) \<Rightarrow> (bytes \<Rightarrow> item list)
   \<Rightarrow> bytes \<Rightarrow> string \<Rightarrow> result" where
  "extract_from_bytes pdf_text parse coord file_bytes filename =
     (if file_bytes = [] then
        failure empty_file ''File is empty. Please upload a valid PDF file.'' ''''
      else if is_image filename then
        failure image_file_not_supported
          ''Image files are not supported. Please convert to PDF or enter details manually.'' ''''
      else if \<not> is_pdf file_bytes filename then
        failure unsupported_file_type ''Please upload a PDF file.'' ''''
      else
        (case pdf_text file_bytes of
           Inl e \<Rightarrow> failure pdf_extraction_failed (''Could not extract text from PDF: '' @ e) ''''
         | Inr text \<Rightarrow>
             if text = [] \<or> strip text = [] then
               failure no_text_extracted ''No readable text found in PDF.'' ''''
             else
               (case parse text of
                  Inl e \<Rightarrow>
                    failure parsing_failed ''Could not extract structured data from PDF.'' text
                | Inr p \<Rightarrow>
                    let coord_items = coord file_bytes;
                        final_items = (if coord_items \<noteq> [] then coord_items else p_items p);
                        hdr = make_header p;
                        formatted_items = map format_item final_items;
                        has_data = (truthy_str (h_customer_name hdr)
                                    \<or> truthy_str (h_invoice_no hdr)
                                    \<or> length formatted_items > 0
                                    \<or> truthy_num (h_total hdr))
                    in if has_data then
                         \<lparr>success = True, error = None,
                          message = ''Invoice data extracted successfully'',
                          ocr_available = False, r_header = Some hdr,
                          r_items = formatted_items, raw_text = text\<rparr>
                       else
                         failure parsing_failed
                           ''Could not extract structured data from PDF.'' text)))"

text \<open>The dict \<^verbatim>\<open>parse_invoice_data\<close> returns when nothing is found: every field
  \<^verbatim>\<open>None\<close>, no items.\<close>

definition empty_parsed :: parsed where
  "empty_parsed =
     \<lparr>p_invoice_no = None, p_code_no = None, p_date = None, p_customer_name = None,
      p_phone = None, p_email = None, p_address = None, p_reference = None,
      p_subtotal = None, p_tax = None, p_total = None, p_items = [],
      p_payment_method = None, p_delivery_terms = None, p_remarks = None,
      p_attended_by = None, p_kind_attention = None, p_seller_name = None,
      p_seller_address = None, p_seller_phone = None, p_seller_email = None,
      p_seller_tax_id = None, p_seller_vat_reg = None\<rparr>"

text \<open>The items the entry point reports: the coordinate extractor's when it found any,
  else the text parser's.\<close>

definition final_items :: "item list \<Rightarrow> parsed \<Rightarrow> item list" where
  "final_items coord_items p = (if coord_items \<noteq> [] then coord_items else p_items p)"

text \<open>Some datum is present (not \<^verbatim>\<open>None\<close>, items not empty) after parsing.\<close>

definition data_present :: "item list \<Rightarrow> parsed \<Rightarrow> bool" where
  "data_present coord_items p =
     (p_customer_name p \<noteq> None \<or> p_invoice_no p \<noteq> None \<or> p_total p \<noteq> None
      \<or> final_items coord_items p \<noteq> [])"

text \<open>A total that counts as data: one that is not zero as a float. A finite total rounds to
  the float zero exactly when its magnitude is at most 2 to the power -1075, half the
  smallest positive float.\<close>

definition nonzero_as_float :: "decimal option \<Rightarrow> bool" where
  "nonzero_as_float v =
     (case v of
        None \<Rightarrow> False
      | Some d \<Rightarrow> (case d of Finite t \<Rightarrow> power_int 2 (- 1075) < \<bar>t\<bar> | PInf \<Rightarrow> True | NInf \<Rightarrow> True))"

text \<open>Some datum counts after parsing: a non-empty name or invoice number, a total that is
  not zero as a float, an item.\<close>

definition data_truthy :: "item list \<Rightarrow> parsed \<Rightarrow> bool" where
  "data_truthy coord_items p =
     (truthy_str (p_customer_name p) \<or> truthy_str (p_invoice_no p)
      \<or> nonzero_as_float (p_total p) \<or> final_items coord_items p \<noteq> [])"

text \<open>Text extraction succeeded with readable text and the input passed the type checks.\<close>

definition text_extracted ::
  "(bytes \<Rightarrow> string + string) \<Rightarrow> bytes \<Rightarrow> string \<Rightarrow> string \<Rightarrow> bool" where
  "text_extracted pdf_text file_bytes filename text =
     (file_bytes \<noteq> [] \<and> \<not> is_image filename \<and> is_pdf file_bytes filename
      \<and> pdf_text file_bytes = Inr text \<and> text \<noteq> [] \<and> strip text \<noteq> [])"

section \<open>Regular expressions\<close>

text \<open>
  The program is written with Python's \<^verbatim>\<open>re\<close>. Its patterns are terms of \<open>rx\<close>, and
  the matcher below is a backtracking matcher with \<^verbatim>\<open>re\<close>'s priorities: the left
  alternative first, a greedy repetition as many times as possible first, a lazy one as
  few. \<open>Cls\<close> and \<open>NCls\<close> are the classes \<^verbatim>\<open>[...]\<close> and \<^verbatim>\<open>[^...]\<close> of
  characters and ranges, \<open>Rep r lo hi greedy\<close> is \<^verbatim>\<open>r{lo,hi}\<close> (no upper bound for \<open>None\<close>) and
  \<open>Grp n r\<close> is capture group \<open>n\<close>. Every repeated pattern of the program consumes at least
  one character per round, so a repetition never needs more rounds than characters are left.
\<close>

datatype citem = Ch char | Range char char

datatype rx =
    Eps
  | Lit char
  | Cls "citem list"
  | NCls "citem list"
  | Dot
  | Bol
  | Eol
  | Wordb
  | Cat rx rx
  | Alt rx rx
  | Rep rx nat "nat option" bool
  | Grp nat rx

text \<open>The captures: group number, start, end. The matcher's state: position, the character
  before it, the characters from it on, the captures so far.\<close>

type_synonym caps = "(nat \<times> nat \<times> nat) list"
type_synonym mstate = "nat \<times> char option \<times> string \<times> caps"

text \<open>\<^verbatim>\<open>\w\<close>: the ASCII letters, the digits, the underscore, and the letters and
  numeric characters of 0x80..0xFF.\<close>

definition is_word :: "char \<Rightarrow> bool" where
  "is_word c =
     (is_lower c \<or> is_upper c \<or> is_digit c \<or> c = CHR ''_''
      \<or> c = CHR 0xAA \<or> c = CHR 0xB2 \<or> c = CHR 0xB3 \<or> c = CHR 0xB5 \<or> c = CHR 0xB9
      \<or> c = CHR 0xBA \<or> (CHR 0xBC \<le> c \<and> c \<le> CHR 0xBE) \<or> (CHR 0xC0 \<le> c \<and> c \<le> CHR 0xD6)
      \<or> (CHR 0xD8 \<le> c \<and> c \<le> CHR 0xF6) \<or> CHR 0xF8 \<le> c)"

definition item_has :: "char \<Rightarrow> citem \<Rightarrow> bool" where
  "item_has c it = (case it of Ch d \<Rightarrow> c = d | Range lo hi \<Rightarrow> lo \<le> c \<and> c \<le> hi)"

definition class_has :: "citem list \<Rightarrow> char \<Rightarrow> bool" where
  "class_has cs c = list_ex (item_has c) cs"

text \<open>Membership in a character class; \<open>ci\<close> is the flag \<^verbatim>\<open>re.I\<close>, under which a
  character also matches through its other case.\<close>

definition in_class :: "bool \<Rightarrow> citem list \<Rightarrow> char \<Rightarrow> bool" where
  "in_class ci cs c =
     (if class_has cs c then True
      else if ci then (if class_has cs (lower_char c) then True else class_has cs (upper_char c))
      else False)"

definition at_word_boundary :: "char option \<Rightarrow> string \<Rightarrow> bool" where
  "at_word_boundary pv rest =
     ((case pv of None \<Rightarrow> False | Some c \<Rightarrow> is_word c)
      \<noteq> (case rest of [] \<Rightarrow> False | c # _ \<Rightarrow> is_word c))"

definition step_char :: "(char \<Rightarrow> bool) \<Rightarrow> mstate \<Rightarrow> (mstate \<Rightarrow> 'a option) \<Rightarrow> 'a option" where
  "step_char P st k =
     (case st of (p, pv, rest, cs) \<Rightarrow>
        (case rest of
           [] \<Rightarrow> None
         | c # rest' \<Rightarrow> if P c then k (Suc p, Some c, rest', cs) else None))"

definition dec_opt :: "nat option \<Rightarrow> nat option" where
  "dec_opt hi = map_option (\<lambda>h. h - 1) hi"

text \<open>\<open>repeat n f lo hi greedy\<close>: between \<open>lo\<close> and \<open>hi\<close> rounds of \<open>f\<close>, at most \<open>n\<close>.\<close>

primrec repeat ::
  "nat \<Rightarrow> (mstate \<Rightarrow> (mstate \<Rightarrow> 'a option) \<Rightarrow> 'a option) \<Rightarrow> nat \<Rightarrow> nat option \<Rightarrow> bool
   \<Rightarrow> mstate \<Rightarrow> (mstate \<Rightarrow> 'a option) \<Rightarrow> 'a option" where
  "repeat 0 f lo hi greedy st k = (if lo = 0 then k st else None)"
| "repeat (Suc n) f lo hi greedy st k =
     (if hi = Some 0 then (if lo = 0 then k st else None)
      else if lo > 0 then f st (\<lambda>st'. repeat n f (lo - 1) (dec_opt hi) greedy st' k)
      else if greedy then
        (case f st (\<lambda>st'. repeat n f 0 (dec_opt hi) greedy st' k) of
           Some r \<Rightarrow> Some r
         | None \<Rightarrow> k st)
      else
        (case k st of
           Some r \<Rightarrow> Some r
         | None \<Rightarrow> f st (\<lambda>st'. repeat n f 0 (dec_opt hi) greedy st' k)))"

text \<open>\<open>rx_match ci r st k\<close>: the first way, in \<^verbatim>\<open>re\<close>'s order, to match \<open>r\<close> from \<open>st\<close>
  such that the continuation \<open>k\<close> succeeds on the state after it.\<close>

primrec rx_match :: "bool \<Rightarrow> rx \<Rightarrow> mstate \<Rightarrow> (mstate \<Rightarrow> 'a option) \<Rightarrow> 'a option" where
  "rx_match ci Eps st k = k st"
| "rx_match ci (Lit c) st k = step_char (\<lambda>x. in_class ci [Ch c] x) st k"
| "rx_match ci (Cls cs) st k = step_char (\<lambda>x. in_class ci cs x) st k"
| "rx_match ci (NCls cs) st k = step_char (\<lambda>x. \<not> in_class ci cs x) st k"
| "rx_match ci Dot st k = step_char (\<lambda>x. x \<noteq> CHR 0x0A) st k"
| "rx_match ci Bol st k = (case st of (p, pv, rest, cs) \<Rightarrow> if p = 0 then k st else None)"
| "rx_match ci Eol st k =
     (case st of (p, pv, rest, cs) \<Rightarrow>
        if rest = [] \<or> rest = [CHR 0x0A] then k st else None)"
| "rx_match ci Wordb st k =
     (case st of (p, pv, rest, cs) \<Rightarrow> if at_word_boundary pv rest then k st else None)"
| "rx_match ci (Cat a b) st k = rx_match ci a st (\<lambda>st'. rx_match ci b st' k)"
| "rx_match ci (Alt a b) st k =
     (case rx_match ci a st k of Some r \<Rightarrow> Some r | None \<Rightarrow> rx_match ci b st k)"
| "rx_match ci (Rep r lo hi greedy) st k =
     repeat (Suc (length (fst (snd (snd st))))) (rx_match ci r) lo hi greedy st k"
| "rx_match ci (Grp n r) st k =
     rx_match ci r st
       (\<lambda>st'. case st' of (p', pv', rest', cs') \<Rightarrow> k (p', pv', rest', (n, fst st, p') # cs'))"

text \<open>A match object: start, end, captures.\<close>

type_synonym rmatch = "nat \<times> nat \<times> caps"

definition m_start :: "rmatch \<Rightarrow> nat" where
  "m_start mt = fst mt"

definition m_end :: "rmatch \<Rightarrow> nat" where
  "m_end mt = fst (snd mt)"

definition match_at :: "bool \<Rightarrow> rx \<Rightarrow> nat \<Rightarrow> char option \<Rightarrow> string \<Rightarrow> rmatch option" where
  "match_at ci r p pv rest =
     rx_match ci r (p, pv, rest, [])
       (\<lambda>st. case st of (e, pv', rest', cs) \<Rightarrow> Some (p, e, cs))"

text \<open>The leftmost match at or after a position.\<close>

fun search_from :: "bool \<Rightarrow> rx \<Rightarrow> nat \<Rightarrow> char option \<Rightarrow> string \<Rightarrow> rmatch option" where
  "search_from ci r p pv [] = match_at ci r p pv []"
| "search_from ci r p pv (c # cs) =
     (case match_at ci r p pv (c # cs) of
        Some mt \<Rightarrow> Some mt
      | None \<Rightarrow> search_from ci r (Suc p) (Some c) cs)"

definition re_search :: "bool \<Rightarrow> rx \<Rightarrow> string \<Rightarrow> rmatch option" where
  "re_search ci r s = search_from ci r 0 None s"

definition re_match :: "bool \<Rightarrow> rx \<Rightarrow> string \<Rightarrow> rmatch option" where
  "re_match ci r s = match_at ci r 0 None s"

definition matched :: "rmatch option \<Rightarrow> bool" where
  "matched mo = (mo \<noteq> None)"

definition slice :: "string \<Rightarrow> nat \<Rightarrow> nat \<Rightarrow> string" where
  "slice s i j = take (j - i) (drop i s)"

text \<open>\<^verbatim>\<open>match.group(n)\<close>: \<open>None\<close> for a group that took no part in the match.\<close>

definition group :: "string \<Rightarrow> rmatch \<Rightarrow> nat \<Rightarrow> string option" where
  "group s mt n =
     (if n = 0 then Some (slice s (m_start mt) (m_end mt))
      else map_option (\<lambda>(i, j). slice s i j) (map_of (snd (snd mt)) n))"

text \<open>All matches from left to right, none overlapping another (\<^verbatim>\<open>re.finditer\<close>). The
  patterns it is used with match no empty string; after an empty match the scan moves on by
  one character.\<close>

function finditer_from :: "bool \<Rightarrow> rx \<Rightarrow> nat \<Rightarrow> char option \<Rightarrow> string \<Rightarrow> rmatch list" where
  "finditer_from ci r p pv rest =
     (case search_from ci r p pv rest of
        None \<Rightarrow> []
      | Some mt \<Rightarrow>
          (let e = m_end mt in
           if p < e \<and> e - p \<le> length rest then
             mt # finditer_from ci r e (Some (rest ! (e - p - 1))) (drop (e - p) rest)
           else if rest = [] then [mt]
           else mt # finditer_from ci r (Suc p) (Some (hd rest)) (tl rest)))"
  by pat_completeness auto
termination
  by (relation "measure (\<lambda>(ci, r, p, pv, rest). length rest)") auto

declare finditer_from.simps [simp del]

definition finditer :: "bool \<Rightarrow> rx \<Rightarrow> string \<Rightarrow> rmatch list" where
  "finditer ci r s = finditer_from ci r 0 None s"

text \<open>\<open>replace_matches repl p ms rest\<close>: \<open>rest\<close>, which starts at position \<open>p\<close>, with the
  matches \<open>ms\<close> replaced by \<open>repl\<close>.\<close>

fun replace_matches :: "string \<Rightarrow> nat \<Rightarrow> rmatch list \<Rightarrow> string \<Rightarrow> string" where
  "replace_matches repl p [] rest = rest"
| "replace_matches repl p (mt # ms) rest =
     take (m_start mt - p) rest @ repl
     @ replace_matches repl (m_end mt) ms (drop (m_end mt - p) rest)"

definition re_sub :: "bool \<Rightarrow> rx \<Rightarrow> string \<Rightarrow> string \<Rightarrow> string" where
  "re_sub ci r repl s = replace_matches repl 0 (finditer ci r s) s"

subsection \<open>Writing patterns\<close>

fun Alts :: "rx list \<Rightarrow> rx" where
  "Alts [] = Cls []"
| "Alts [r] = r"
| "Alts (r # rs) = Alt r (Alts rs)"

fun Cats :: "rx list \<Rightarrow> rx" where
  "Cats [] = Eps"
| "Cats [r] = r"
| "Cats (r # rs) = Cat r (Cats rs)"

definition Str :: "string \<Rightarrow> rx" where
  "Str s = Cats (map Lit s)"

definition Many :: "rx \<Rightarrow> rx" where
  "Many r = Rep r 0 None True"

definition Many1 :: "rx \<Rightarrow> rx" where
  "Many1 r = Rep r 1 None True"

definition Opt :: "rx \<Rightarrow> rx" where
  "Opt r = Rep r 0 (Some 1) True"

text \<open>The classes \<^verbatim>\<open>\d\<close> and \<^verbatim>\<open>\s\<close>, and the characters of a string as class
  items.\<close>

definition digit_class :: "citem list" where
  "digit_class = [Range CHR ''0'' CHR ''9'']"

definition space_class :: "citem list" where
  "space_class = [Range CHR 0x09 CHR 0x0D, Range CHR 0x1C CHR 0x20, Ch CHR 0x85, Ch CHR 0xA0]"

definition chars :: "string \<Rightarrow> citem list" where
  "chars s = map Ch s"

definition Digit :: rx where
  "Digit = Cls digit_class"

definition Space :: rx where
  "Space = Cls space_class"

text \<open>\<^verbatim>\<open>\s*\<close>, and two words with \<^verbatim>\<open>\s*\<close> between them.\<close>

definition ws :: rx where
  "ws = Many Space"

definition Words :: "string \<Rightarrow> string \<Rightarrow> rx" where
  "Words a b = Cats [Str a, ws, Str b]"

text \<open>\<^verbatim>\<open>^...$\<close> and \<^verbatim>\<open>\b...\b\<close>\<close>

definition Whole :: "rx \<Rightarrow> rx" where
  "Whole r = Cats [Bol, r, Eol]"

definition Bounded :: "rx \<Rightarrow> rx" where
  "Bounded r = Cats [Wordb, r, Wordb]"

section \<open>Reading numbers\<close>

definition digit_val :: "char \<Rightarrow> int" where
  "digit_val c =
     (case map_of (zip ''0123456789'' [0, 1, 2, 3, 4, 5, 6, 7, 8, 9]) c of
        Some d \<Rightarrow> d | None \<Rightarrow> 0)"

definition int_of_digits :: "string \<Rightarrow> int" where
  "int_of_digits ds = foldl (\<lambda>a c. 10 * a + digit_val c) 0 ds"

text \<open>Digits with at most one dot and at least one digit: its value; else \<open>None\<close>.\<close>

definition unsigned_decimal :: "string \<Rightarrow> rat option" where
  "unsigned_decimal s =
     (let ip = takeWhile is_digit s; r = dropWhile is_digit s in
      case r of
        [] \<Rightarrow> if ip = [] then None else Some (of_int (int_of_digits ip))
      | c # fr \<Rightarrow>
          if c = CHR ''.'' \<and> list_all is_digit fr \<and> (ip \<noteq> [] \<or> fr \<noteq> [])
          then Some (of_int (int_of_digits ip) + of_int (int_of_digits fr) / 10 ^ length fr)
          else None)"

text \<open>
  \<^verbatim>\<open>float(s)\<close> where the program calls it: \<open>s\<close> is a match of the number pattern
  without its commas, digits with at most one dot. \<open>None\<close> is \<^verbatim>\<open>ValueError\<close>.
\<close>

definition py_float :: "string \<Rightarrow> pyfloat option" where
  "py_float s = map_option float_of_rat (unsigned_decimal s)"

text \<open>
  \<^verbatim>\<open>Decimal(s)\<close> where the program calls it: \<open>s\<close> holds digits, dots and minus signs
  only. A leading minus sign is the sign; \<open>None\<close> is \<^verbatim>\<open>InvalidOperation\<close>.
\<close>

definition py_decimal :: "string \<Rightarrow> decimal option" where
  "py_decimal s =
     (case s of
        [] \<Rightarrow> None
      | c # r \<Rightarrow> if c = CHR ''-'' then map_option (\<lambda>d. Finite (- d)) (unsigned_decimal r)
                 else map_option Finite (unsigned_decimal s))"

definition remove_commas :: "string \<Rightarrow> string" where
  "remove_commas s = filter (\<lambda>c. c \<noteq> CHR '','') s"

text \<open>\<^verbatim>\<open>max(numbers)\<close>\<close>

definition max_list :: "pyfloat list \<Rightarrow> pyfloat" where
  "max_list xs = fold max (tl xs) (hd xs)"

definition join :: "string \<Rightarrow> string list \<Rightarrow> string" where
  "join sep parts = (case parts of [] \<Rightarrow> [] | p # ps \<Rightarrow> p @ concat (map (\<lambda>q. sep @ q) ps))"

fun find_index :: "('a \<Rightarrow> bool) \<Rightarrow> 'a list \<Rightarrow> nat option" where
  "find_index P [] = None"
| "find_index P (x # xs) = (if P x then Some 0 else map_option Suc (find_index P xs))"

text \<open>How many of the patterns are found in the line (\<^verbatim>\<open>re.I\<close>).\<close>

definition keyword_count :: "rx list \<Rightarrow> string \<Rightarrow> nat" where
  "keyword_count pats line =
     sum_list (map (\<lambda>pat. if matched (re_search True pat line) then 1 else 0) pats)"

text \<open>\<^verbatim>\<open>text.split('\n')\<close>\<close>

fun split_nl :: "string \<Rightarrow> string list" where
  "split_nl [] = [[]]"
| "split_nl (c # cs) =
     (if c = CHR 0x0A then [] # split_nl cs
      else (case split_nl cs of [] \<Rightarrow> [[c]] | l # ls \<Rightarrow> (c # l) # ls))"

text \<open>The lines of a text, stripped, the blank ones left out.\<close>

definition clean_lines :: "string \<Rightarrow> string list" where
  "clean_lines txt = map strip (filter (\<lambda>line. strip line \<noteq> []) (split_nl txt))"

section \<open>The text line-item parser\<close>

subsection \<open>Its patterns\<close>

text \<open>\<^verbatim>\<open>^(\d{1,2})\s+\<close>\<close>

definition sr_pat :: rx where
  "sr_pat = Cats [Bol, Grp 1 (Rep Digit 1 (Some 2) True), Many1 Space]"

text \<open>\<^verbatim>\<open>^(\d{6,15}|[A-Z0-9]{3,15})\s+\<close>\<close>

definition code_pat :: rx where
  "code_pat =
     Cats [Bol, Grp 1 (Alt (Rep Digit 6 (Some 15) True) (Rep (Cls [Range CHR ''A'' CHR ''Z'', Range CHR ''0'' CHR ''9'']) 3 (Some 15) True)),
           Many1 Space]"

text \<open>The unit keywords of the continuation lines, and those of the item's first line, which
  has four more.\<close>

definition unit_line_words :: "rx list" where
  "unit_line_words =
     [Str ''PCS'', Str ''NOS'', Str ''KG'', Str ''HR'', Str ''LTR'', Str ''PIECES'',
      Cat (Str ''UNIT'') (Opt (Lit CHR ''S'')), Str ''KIT'', Str ''BOX'', Str ''CASE'',
      Cat (Str ''SET'') (Opt (Lit CHR ''S'')), Str ''PC'', Str ''UNT'', Str ''KTS'', Str ''BAG'',
      Str ''BUNDLE'', Str ''PACK'', Str ''CYLINDER'', Str ''LITRE'']"

definition unit_line_keywords :: rx where
  "unit_line_keywords = Bounded (Grp 1 (Alts unit_line_words))"

definition unit_keywords :: rx where
  "unit_keywords =
     Bounded (Grp 1 (Alts (unit_line_words @ [Str ''TYRE'', Str ''TIRE'', Str ''TL'', Str ''LT''])))"

text \<open>\<^verbatim>\<open>(\d+(?:,\d+)*(?:\.\d+)?)\<close>\<close>

definition number_pat :: rx where
  "number_pat =
     Grp 1 (Cats [Many1 Digit, Many (Cat (Lit CHR '','') (Many1 Digit)),
                  Opt (Cat (Lit CHR ''.'') (Many1 Digit))])"

text \<open>\<^verbatim>\<open>\s+\d+(?:,\d+)*(?:\.\d+)?\s*$\<close>\<close>

definition trailing_number_pat :: rx where
  "trailing_number_pat =
     Cats [Many1 Space, Many1 Digit, Many (Cat (Lit CHR '','') (Many1 Digit)),
           Opt (Cat (Lit CHR ''.'') (Many1 Digit)), ws, Eol]"

text \<open>The words that end the item section, and the longer list that ends an item's
  description.\<close>

definition summary_words :: "rx list" where
  "summary_words =
     [Words ''Net'' ''Value'', Words ''Gross'' ''Value'', Words ''Grand'' ''Total'',
      Cats [Str ''Total'', ws, Lit CHR '':''], Cats [Str ''Page'', ws, Many1 Digit],
      Words ''Existing'' ''Customer'']"

definition totals_pat :: rx where
  "totals_pat = Grp 1 (Alts summary_words)"

definition stop_pat :: rx where
  "stop_pat =
     Grp 1 (Alts (summary_words @
       [Words ''Customer'' ''Information'', Words ''Invoice'' ''Date'', Str ''Date'']))"

text \<open>\<^verbatim>\<open>^\s*(Sr|Item|Code|Description|Type|Qty|Rate|Value|Unit|Price|Amount)\s*$\<close>\<close>

definition pure_header_pat :: rx where
  "pure_header_pat =
     Cats [Bol, ws,
           Grp 1 (Alts (map Str [''Sr'', ''Item'', ''Code'', ''Description'', ''Type'', ''Qty'',
                                  ''Rate'', ''Value'', ''Unit'', ''Price'', ''Amount''])),
           ws, Eol]"

text \<open>\<^verbatim>\<open>^\s*(?:Sr|S\.N|Item|Code|Description|Type|Qty|Rate|Value|Unit|Price|Amount|#)\s*$\<close>\<close>

definition header_like_pat :: rx where
  "header_like_pat =
     Cats [Bol, ws,
           Alts (map Str [''Sr'', ''S.N'', ''Item'', ''Code'', ''Description'', ''Type'', ''Qty'',
                          ''Rate'', ''Value'', ''Unit'', ''Price'', ''Amount'', ''#'']),
           ws, Eol]"

text \<open>\<^verbatim>\<open>^\d+\s+[\d\,\.]+\<close>, \<^verbatim>\<open>^[\d\.\%]+$\<close> and
  \<^verbatim>\<open>^\d+\s+(?:PCS|NOS|UNT|KG|LTR|BOX|CASE)\b\<close>\<close>

definition qty_amount_pat :: rx where
  "qty_amount_pat = Cats [Bol, Many1 Digit, Many1 Space, Many1 (Cls (digit_class @ chars '',.''))]"

definition only_numeric_pat :: rx where
  "only_numeric_pat = Cats [Bol, Many1 (Cls (digit_class @ chars ''.%'')), Eol]"

definition qty_unit_pat :: rx where
  "qty_unit_pat =
     Cats [Bol, Many1 Digit, Many1 Space,
           Alts (map Str [''PCS'', ''NOS'', ''UNT'', ''KG'', ''LTR'', ''BOX'', ''CASE'']), Wordb]"

text \<open>The five keyword groups of the item section's header line.\<close>

definition section_keywords :: "rx list" where
  "section_keywords =
     [Bounded (Alts [Str ''Sr'', Str ''S.N'', Str ''Serial'', Cat (Str ''No'') (Opt (Lit CHR ''.''))]),
      Bounded (Alts (map Str [''Item'', ''Code'', ''Product''])),
      Bounded (Alts (map Str [''Description'', ''Desc''])),
      Bounded (Alts (map Str [''Qty'', ''Quantity''])),
      Bounded (Alts (map Str [''Rate'', ''Price'', ''Value'', ''Amount'']))]"

subsection \<open>Assigning the numbers of an item\<close>

text \<open>The item record before its numbers are assigned.\<close>

definition new_item :: "string \<Rightarrow> string option \<Rightarrow> string option \<Rightarrow> item" where
  "new_item full_description item_code u =
     \<lparr>description = Some full_description, code = item_code, unit = u, qty = 1,
      rate = None, item_value = None\<rparr>"

text \<open>\<^verbatim>\<open>num == int(num) and 0 < num < 1000\<close>: \<^verbatim>\<open>int(num)\<close> is evaluated first,
  and it raises for an infinite number.\<close>

definition small_whole :: "pyfloat \<Rightarrow> exn + bool" where
  "small_whole num =
     and_then (py_int num)
       (\<lambda>n. Inr (num = Finite (of_int n) \<and> Finite 0 < num \<and> num < Finite 1000))"

text \<open>The loop that looks for the quantity: the first number that is whole, between 0 and
  1000 and less than the largest.\<close>

fun find_quantity :: "pyfloat \<Rightarrow> pyfloat list \<Rightarrow> exn + int option" where
  "find_quantity max_num [] = Inr None"
| "find_quantity max_num (num # nums) =
     (case small_whole num of
        Inl e \<Rightarrow> Inl e
      | Inr sw \<Rightarrow>
          if sw \<and> num < max_num then and_then (py_int num) (\<lambda>q. Inr (Some q))
          else find_quantity max_num nums)"

text \<open>No quantity was found: the last number is the value, the one before it the rate.\<close>

definition no_quantity :: "pyfloat list \<Rightarrow> item \<Rightarrow> item" where
  "no_quantity numbers it =
     (let it1 = it\<lparr>item_value := Some (decimal_of_float (last numbers))\<rparr>
      in if length numbers > 1
         then it1\<lparr>rate := Some (decimal_of_float (numbers ! (length numbers - 2)))\<rparr>
         else it1)"

text \<open>
  The last part of \<^verbatim>\<open>parse_item_multiline\<close>. \<^verbatim>\<open>if qty_candidate\<close> and
  \<^verbatim>\<open>if rate_candidate\<close> test for a number other than zero.
\<close>

definition assign_numbers :: "pyfloat list \<Rightarrow> item \<Rightarrow> exn + item" where
  "assign_numbers numbers it =
     (if length numbers = 1 then
        Inr (it\<lparr>item_value := Some (decimal_of_float (numbers ! 0))\<rparr>)
      else if length numbers = 2 then
        and_then (small_whole (numbers ! 0))
          (\<lambda>sw. if sw \<and> numbers ! 1 > numbers ! 0
                then and_then (py_int (numbers ! 0))
                       (\<lambda>q. Inr (it\<lparr>qty := q,
                                      item_value := Some (decimal_of_float (numbers ! 1))\<rparr>))
                else Inr (it\<lparr>item_value := Some (decimal_of_float (max_list numbers))\<rparr>))
      else if length numbers \<ge> 3 then
        (let max_num = max_list numbers in
         and_then (find_quantity max_num numbers)
           (\<lambda>qty_candidate.
              case qty_candidate of
                Some q \<Rightarrow>
                  if q \<noteq> 0 then
                    (let rate_candidate =
                           find (\<lambda>num. num \<noteq> Finite (of_int q) \<and> num \<noteq> max_num \<and> num > Finite 0)
                             numbers;
                         it1 = it\<lparr>qty := q, item_value := Some (decimal_of_float max_num)\<rparr>
                     in if truthy_num rate_candidate
                          then Inr (it1\<lparr>rate := map_option decimal_of_float rate_candidate\<rparr>)
                        else if q > 0 \<and> max_num > Finite 0
                          then Inr (it1\<lparr>rate := Some (decimal_of_float
                                                       (float_div max_num (of_int q)))\<rparr>)
                        else Inr it1)
                  else Inr (no_quantity numbers it)
              | None \<Rightarrow> Inr (no_quantity numbers it)))
      else Inr it)"

subsection \<open>\<^verbatim>\<open>parse_item_multiline\<close>\<close>

text \<open>Is the match that ends at \<open>end_pos\<close> followed by a percent sign?\<close>

definition followed_by_percent :: "string \<Rightarrow> nat \<Rightarrow> bool" where
  "followed_by_percent rest_of_line end_pos =
     (end_pos < length rest_of_line
      \<and> (case strip (slice rest_of_line end_pos (end_pos + 2)) of
            [] \<Rightarrow> False
          | c # _ \<Rightarrow> c = CHR ''%''))"

text \<open>The plain numbers of the line, in order; the percentages are set aside.\<close>

definition collect_numbers :: "string \<Rightarrow> pyfloat list" where
  "collect_numbers rest_of_line =
     concat (map (\<lambda>mt.
        if followed_by_percent rest_of_line (m_end mt) then []
        else (case group rest_of_line mt 1 of
                None \<Rightarrow> []
              | Some g \<Rightarrow> (case py_float (remove_commas g) of None \<Rightarrow> [] | Some num \<Rightarrow> [num])))
       (finditer False number_pat rest_of_line))"

text \<open>The item code, if the line starts with one, and the line after it.\<close>

definition strip_code :: "string \<Rightarrow> string option \<times> string" where
  "strip_code rest_of_line =
     (case re_match False code_pat rest_of_line of
        None \<Rightarrow> (None, rest_of_line)
      | Some code_match \<Rightarrow>
          (group rest_of_line code_match 1, strip (drop (m_end code_match) rest_of_line)))"

text \<open>The part of an item's first line that its unit, numbers and description are read from:
  the line without the serial number and the item code.\<close>

definition item_rest_of_line :: "string \<Rightarrow> string option" where
  "item_rest_of_line current_line =
     (case re_match False sr_pat current_line of
        None \<Rightarrow> None
      | Some sr_match \<Rightarrow> Some (snd (strip_code (strip (drop (m_end sr_match) current_line)))))"

definition line_unit :: "string \<Rightarrow> rmatch option \<Rightarrow> string option" where
  "line_unit rest_of_line unit_match =
     (case unit_match of
        None \<Rightarrow> None
      | Some um \<Rightarrow> map_option upper (group rest_of_line um 1))"

definition line_description :: "string \<Rightarrow> rmatch option \<Rightarrow> string" where
  "line_description rest_of_line unit_match =
     (case unit_match of
        Some um \<Rightarrow> strip (take (m_start um) rest_of_line)
      | None \<Rightarrow> strip (re_sub False trailing_number_pat [] rest_of_line))"

text \<open>The look-ahead loop over the lines after the item's first: the lines added to the
  description, and the unit.\<close>

fun continuation :: "string list \<Rightarrow> string option \<Rightarrow> string list \<times> string option" where
  "continuation [] u = ([], u)"
| "continuation (next_line # following) u =
     (if matched (re_match False sr_pat next_line) then ([], u)
      else if matched (re_search True stop_pat next_line) then ([], u)
      else if strip next_line = [] \<or> matched (re_search True header_like_pat next_line)
        then ([], u)
      else if matched (re_match False qty_amount_pat (strip next_line)) then ([], u)
      else if matched (re_match False only_numeric_pat (strip next_line)) then ([], u)
      else if matched (re_match True qty_unit_pat (strip next_line)) then
        (case re_search True unit_line_keywords (strip next_line) of
           Some unit_line_match \<Rightarrow>
             if truthy_str u then ([], u)
             else ([], map_option upper (group (strip next_line) unit_line_match 1))
         | None \<Rightarrow> ([], u))
      else (case continuation following u of (ls, u') \<Rightarrow> (next_line # ls, u')))"

definition combine_description :: "string list \<Rightarrow> string" where
  "combine_description description_parts =
     take 255 (re_sub False (Many1 Space) '' ''
                 (strip (join '' '' (filter (\<lambda>p. p \<noteq> []) description_parts))))"

text \<open>The item, if any, and the number of lines consumed; the exception of the number
  assignment is let out.\<close>

definition parse_item_multiline :: "string list \<Rightarrow> nat \<Rightarrow> exn + (item option \<times> nat)" where
  "parse_item_multiline all_lines start_idx =
     (if start_idx \<ge> length all_lines then Inr (None, 0)
      else
        (case re_match False sr_pat (all_lines ! start_idx) of
           None \<Rightarrow> Inr (None, 1)
         | Some sr_match \<Rightarrow>
             (case strip_code (strip (drop (m_end sr_match) (all_lines ! start_idx))) of
                (item_code, rest_of_line) \<Rightarrow>
                  (let unit_match = re_search True unit_keywords rest_of_line in
                   case continuation (drop (Suc start_idx) all_lines)
                          (line_unit rest_of_line unit_match) of
                     (more_parts, u) \<Rightarrow>
                       (let full_description =
                              combine_description
                                (line_description rest_of_line unit_match # more_parts);
                            lines_consumed = 1 + length more_parts
                        in if full_description = [] \<or> length full_description < 2
                           then Inr (None, lines_consumed)
                           else and_then
                                  (assign_numbers (collect_numbers rest_of_line)
                                     (new_item full_description item_code u))
                                  (\<lambda>it. Inr (Some it, lines_consumed)))))))"

lemma parse_item_multiline_consumed:
  "parse_item_multiline all_lines start_idx = Inr (it, n) \<Longrightarrow> start_idx < length all_lines
   \<Longrightarrow> 0 < n"
  by (auto simp: parse_item_multiline_def Let_def and_then_def
      split: option.splits prod.splits if_splits sum.splits)

subsection \<open>\<^verbatim>\<open>extract_line_items_from_text\<close>\<close>

text \<open>The loop over the lines after the header line. It ends since an item takes at least
  its own line. An exception of \<^verbatim>\<open>parse_item_multiline\<close> ends it, and the items found
  before are lost.\<close>

function items_loop :: "string list \<Rightarrow> nat \<Rightarrow> exn + item list" where
  "items_loop cleaned_lines i =
     (if i < length cleaned_lines then
        (if matched (re_search True totals_pat (cleaned_lines ! i)) then Inr []
         else if matched (re_search True pure_header_pat (cleaned_lines ! i))
           then items_loop cleaned_lines (i + 1)
         else if matched (re_match False sr_pat (cleaned_lines ! i)) then
           (case parse_item_multiline cleaned_lines i of
              Inl e \<Rightarrow> Inl e
            | Inr (it, lines_consumed) \<Rightarrow>
                (case items_loop cleaned_lines (i + lines_consumed) of
                   Inl e \<Rightarrow> Inl e
                 | Inr following \<Rightarrow>
                     Inr ((case it of
                             Some x \<Rightarrow> if truthy_str (description x) then [x] else []
                           | None \<Rightarrow> [])
                          @ following)))
         else items_loop cleaned_lines (i + 1))
      else Inr [])"
  by pat_completeness auto
termination
  by (relation "measure (\<lambda>(ls, i). length ls - i)")
     (auto dest: parse_item_multiline_consumed)

declare items_loop.simps [simp del]

definition extract_line_items_from_text :: "string \<Rightarrow> exn + item list" where
  "extract_line_items_from_text txt =
     (let cleaned_lines = clean_lines txt in
      case find_index (\<lambda>line. keyword_count section_keywords line \<ge> 3) cleaned_lines of
        None \<Rightarrow> Inr []
      | Some item_section_start \<Rightarrow> items_loop cleaned_lines (item_section_start + 1))"

section \<open>The monetary totals of \<^verbatim>\<open>parse_invoice_data\<close>\<close>

text \<open>\<^verbatim>\<open>text.replace('\r\n', '\n').replace('\r', '\n')\<close>\<close>

fun normalize_newlines :: "string \<Rightarrow> string" where
  "normalize_newlines [] = []"
| "normalize_newlines [c] = (if c = CHR 0x0D then [CHR 0x0A] else [c])"
| "normalize_newlines (c # d # r) =
     (if c = CHR 0x0D \<and> d = CHR 0x0A then CHR 0x0A # normalize_newlines r
      else if c = CHR 0x0D then CHR 0x0A # normalize_newlines (d # r)
      else c # normalize_newlines (d # r))"

text \<open>\<^verbatim>\<open>Proforma\s+Invoice|PI\s*No|Code\s*No\<close>\<close>

definition proforma_pat :: rx where
  "proforma_pat =
     Alts [Cats [Str ''Proforma'', Many1 Space, Str ''Invoice''], Words ''PI'' ''No'',
           Words ''Code'' ''No'']"

text \<open>The lines from the first one with the marker on; all lines when there is none.\<close>

definition extraction_lines :: "string \<Rightarrow> string list" where
  "extraction_lines txt =
     (let lines = clean_lines (normalize_newlines txt) in
      case find_index (\<lambda>line. matched (re_search True proforma_pat line)) lines of
        None \<Rightarrow> lines
      | Some proforma_idx \<Rightarrow> drop proforma_idx lines)"

text \<open>\<^verbatim>\<open>{pattern}\s*[:=]?\s*(?:TSH|TZS|UGX)?\s*([\d,]+\.?\d*)\<close>\<close>

definition amount_pat :: "rx \<Rightarrow> rx" where
  "amount_pat label =
     Cats [label, ws, Opt (Cls (chars '':='')), ws, Opt (Alts [Str ''TSH'', Str ''TZS'', Str ''UGX'']), ws,
           Grp 1 (Cats [Many1 (Cls (digit_class @ chars '','')), Opt (Lit CHR ''.''), Many Digit])]"

text \<open>Group 1 of the first line the pattern is found in.\<close>

fun first_group :: "rx \<Rightarrow> string list \<Rightarrow> string option" where
  "first_group r [] = None"
| "first_group r (line # lines) =
     (case re_search True r line of
        Some mt \<Rightarrow> group line mt 1
      | None \<Rightarrow> first_group r lines)"

fun find_amount :: "string list \<Rightarrow> rx list \<Rightarrow> string option" where
  "find_amount lines [] = None"
| "find_amount lines (pattern # label_patterns) =
     (case first_group (amount_pat pattern) lines of
        Some g \<Rightarrow> Some g
      | None \<Rightarrow> find_amount lines label_patterns)"

definition to_decimal :: "string option \<Rightarrow> decimal option" where
  "to_decimal so =
     (case so of
        None \<Rightarrow> None
      | Some s \<Rightarrow>
          if s = [] then None
          else py_decimal (re_sub False (NCls (digit_class @ chars ''.'')) [] (remove_commas s)))"

definition subtotal_labels :: "rx list" where
  "subtotal_labels = [Words ''Net'' ''Value'', Str ''Subtotal'', Words ''Net'' ''Amount'']"

definition tax_labels :: "rx list" where
  "tax_labels = [Str ''VAT'', Str ''Tax'', Str ''GST'']"

definition total_labels :: "rx list" where
  "total_labels = [Words ''Gross'' ''Value'', Words ''Grand'' ''Total'', Words ''Total'' ''Amount'']"

text \<open>The entries \<^verbatim>\<open>subtotal\<close>, \<^verbatim>\<open>tax\<close> and \<^verbatim>\<open>total\<close> of the dict
  \<^verbatim>\<open>parse_invoice_data\<close> returns; all are \<^verbatim>\<open>None\<close> for a blank text.\<close>

definition amount_of :: "rx list \<Rightarrow> string \<Rightarrow> decimal option" where
  "amount_of labels txt =
     (if txt = [] \<or> strip txt = [] then None
      else to_decimal (find_amount (extraction_lines txt) labels))"

definition parsed_subtotal :: "string \<Rightarrow> decimal option" where
  "parsed_subtotal txt = amount_of subtotal_labels txt"

definition parsed_tax :: "string \<Rightarrow> decimal option" where
  "parsed_tax txt = amount_of tax_labels txt"

definition parsed_total :: "string \<Rightarrow> decimal option" where
  "parsed_total txt = amount_of total_labels txt"

text \<open>
  The entry \<^verbatim>\<open>items\<close>: the items of the extraction lines, joined again; none for a
  blank text. \<^verbatim>\<open>parse_invoice_data\<close> finds its other entries with regular expressions
  and slices, which do not raise: it raises when the item parser does, and only then.
\<close>

definition parsed_items :: "string \<Rightarrow> exn + item list" where
  "parsed_items txt =
     (if txt = [] \<or> strip txt = [] then Inr []
      else extract_line_items_from_text (join [CHR 0x0A] (extraction_lines txt)))"

text \<open>The four entries together, as \<^verbatim>\<open>parse_invoice_data\<close> returns them.\<close>

record amounts =
  a_subtotal :: "decimal option"
  a_tax :: "decimal option"
  a_total :: "decimal option"
  a_items :: "item list"

definition parse_invoice_amounts :: "string \<Rightarrow> exn + amounts" where
  "parse_invoice_amounts txt =
     (case parsed_items txt of
        Inl e \<Rightarrow> Inl e
      | Inr its \<Rightarrow>
          Inr \<lparr>a_subtotal = parsed_subtotal txt, a_tax = parsed_tax txt,
               a_total = parsed_total txt, a_items = its\<rparr>)"

section \<open>The coordinate-based table extractor\<close>

text \<open>
  A word of a page as PyMuPDF gives it: \<^verbatim>\<open>(x0, y0, x1, y1, text, block_no, line_no,
  word_no)\<close>; in a line the program keeps \<^verbatim>\<open>(x0, y0, x1, y1, text)\<close>. The
  coordinates are finite floats, given by their values. The pages' words are the input of
  the model: opening the document is PyMuPDF's part.
\<close>

type_synonym pdf_word = "rat \<times> rat \<times> rat \<times> rat \<times> string \<times> int \<times> int \<times> int"
type_synonym tok = "rat \<times> rat \<times> rat \<times> rat \<times> string"

definition tok_x0 :: "tok \<Rightarrow> rat" where
  "tok_x0 t = fst t"

definition tok_y0 :: "tok \<Rightarrow> rat" where
  "tok_y0 t = fst (snd t)"

definition tok_text :: "tok \<Rightarrow> string" where
  "tok_text t = snd (snd (snd (snd t)))"

text \<open>\<^verbatim>\<open>lines_map.setdefault(key, []).append(t)\<close>: the dict keeps the keys in the order
  they were first stored.\<close>

fun setdefault_append ::
  "(int \<times> int) \<Rightarrow> tok \<Rightarrow> ((int \<times> int) \<times> tok list) list \<Rightarrow> ((int \<times> int) \<times> tok list) list" where
  "setdefault_append k t [] = [(k, [t])]"
| "setdefault_append k t ((k', ts) # r) =
     (if k = k' then (k', ts @ [t]) # r else (k', ts) # setdefault_append k t r)"

definition lines_map :: "pdf_word list \<Rightarrow> ((int \<times> int) \<times> tok list) list" where
  "lines_map page_words =
     foldl (\<lambda>mp w. case w of (x0, y0, x1, y1, txt, block_no, line_no, word_no) \<Rightarrow>
              setdefault_append (block_no, line_no) (x0, y0, x1, y1, txt) mp) [] page_words"

text \<open>The lines, each sorted from left to right, sorted by the height of their first word.
  Both sorts are stable, and no line is empty.\<close>

definition ordered_lines :: "pdf_word list \<Rightarrow> tok list list" where
  "ordered_lines page_words =
     sort_key (\<lambda>lw. tok_y0 (hd lw)) (map (\<lambda>kv. sort_key tok_x0 (snd kv)) (lines_map page_words))"

definition joined :: "tok list \<Rightarrow> string" where
  "joined lw = join '' '' (map tok_text lw)"

text \<open>The six keyword patterns of the header line.\<close>

definition table_header_keywords :: "rx list" where
  "table_header_keywords =
     [Alt (Bounded (Str ''Sr''))
          (Cats [Wordb, Lit CHR ''S'', Opt (Lit CHR ''.''), ws, Str ''No'', Opt (Lit CHR ''.'')]),
      Alt (Words ''Item'' ''Code'') (Str ''Code''),
      Alt (Str ''Description'') (Str ''Desc''),
      Alt (Str ''Qty'') (Str ''Quantity''),
      Alts [Str ''Rate'', Words ''Unit'' ''Price'', Str ''Price''],
      Alt (Str ''Value'') (Str ''Amount'')]"

text \<open>The seven columns and the patterns their header word is found by.\<close>

definition col_defs :: "(string \<times> rx list) list" where
  "col_defs =
     [(''sr'', [Whole (Str ''sr''),
               Whole (Cats [Lit CHR ''s'', Opt (Lit CHR ''.''), ws, Str ''no'', Opt (Lit CHR ''.'')]),
               Whole (Cat (Str ''no'') (Opt (Lit CHR ''.'')))]),
      (''code'', [Words ''item'' ''code'', Whole (Str ''code'')]),
      (''description'', [Whole (Str ''description''), Whole (Str ''desc'')]),
      (''type'', [Whole (Str ''type''), Whole (Str ''unit'')]),
      (''qty'', [Whole (Str ''qty''), Whole (Str ''quantity'')]),
      (''rate'', [Whole (Str ''rate''), Words ''unit'' ''price'', Whole (Str ''price'')]),
      (''value'', [Whole (Str ''value''), Whole (Str ''amount''), Whole (Str ''total'')])]"

text \<open>The \<^verbatim>\<open>x0\<close> of the first header word one of the patterns is found in.\<close>

definition find_word_x :: "tok list \<Rightarrow> rx list \<Rightarrow> rat option" where
  "find_word_x header_words prefixes =
     map_option tok_x0
       (find (\<lambda>t. list_ex (\<lambda>p. matched (re_search True p (tok_text t))) prefixes) header_words)"

definition find_columns :: "tok list \<Rightarrow> (string \<times> rat) list" where
  "find_columns header_words =
     concat (map (\<lambda>(name, pats). case find_word_x header_words pats of
                                   None \<Rightarrow> [] | Some x \<Rightarrow> [(name, x)]) col_defs)"

text \<open>The column ranges \<^verbatim>\<open>(name, x_min, x_max)\<close> from the columns sorted by \<open>x\<close>.
  The sums, the difference and the halves are float operations.\<close>

definition midpoint :: "rat \<Rightarrow> rat \<Rightarrow> pyfloat" where
  "midpoint a x = float_div (float_of_rat (a + x)) 2"

definition build_ranges :: "(string \<times> rat) list \<Rightarrow> (string \<times> pyfloat \<times> pyfloat) list" where
  "build_ranges columns =
     map (\<lambda>idx.
            let name = fst (columns ! idx); x = snd (columns ! idx) in
            if idx = 0 then
              (name, float_of_rat (x - 2),
               if idx + 1 < length columns then midpoint (snd (columns ! (idx + 1))) x
               else float_of_rat (x + 2000))
            else if idx = length columns - 1 then
              (name, midpoint (snd (columns ! (idx - 1))) x, float_of_rat (x + 2000))
            else
              (name, midpoint (snd (columns ! (idx - 1))) x, midpoint (snd (columns ! (idx + 1))) x))
         [0..<length columns]"

text \<open>\<^verbatim>\<open>(Net\s*Value|Gross\s*Value|Grand\s*Total|Total\s*:)\<close>\<close>

definition table_summary_pat :: rx where
  "table_summary_pat =
     Grp 1 (Alts [Words ''Net'' ''Value'', Words ''Gross'' ''Value'', Words ''Grand'' ''Total'',
                  Cats [Str ''Total'', ws, Lit CHR '':'']])"

text \<open>The name of the first range that holds the word's \<open>x0\<close>, and the texts of a row's
  words that fall in the column \<open>name\<close>, joined and stripped.\<close>

definition cell_of :: "(string \<times> pyfloat \<times> pyfloat) list \<Rightarrow> tok \<Rightarrow> string option" where
  "cell_of ranges t =
     map_option fst
       (find (\<lambda>r. Finite (tok_x0 t) \<ge> fst (snd r) \<and> Finite (tok_x0 t) < snd (snd r)) ranges)"

definition cell_text :: "(string \<times> pyfloat \<times> pyfloat) list \<Rightarrow> tok list \<Rightarrow> string \<Rightarrow> string" where
  "cell_text ranges lw name =
     join '' '' (map tok_text (filter (\<lambda>t. cell_of ranges t = Some name) lw))"

text \<open>\<^verbatim>\<open>Decimal(re.sub(r'[^\d\.-]', '', s).replace(',', ''))\<close>, \<open>None\<close> when it raises.\<close>

definition cleaned_amount :: "string \<Rightarrow> string" where
  "cleaned_amount s = remove_commas (re_sub False (NCls (digit_class @ chars ''.-'')) [] s)"

definition to_dec :: "string \<Rightarrow> decimal option" where
  "to_dec s = py_decimal (cleaned_amount s)"

text \<open>\<^verbatim>\<open>\b(NOS|PCS|KG|HR|LTR|UNT|BOX|PCS|PC|NOS)\b\<close>\<close>

definition table_unit_pat :: rx where
  "table_unit_pat =
     Bounded (Grp 1 (Alts (map Str [''NOS'', ''PCS'', ''KG'', ''HR'', ''LTR'', ''UNT'', ''BOX'',
                                     ''PCS'', ''PC'', ''NOS''])))"

text \<open>The cells of a row as values: the code is the first run of 3 to 15 digits, the
  quantity the first run of 1 to 4 digits; an empty cell gives \<^verbatim>\<open>None\<close>.\<close>

definition cell_code :: "string \<Rightarrow> string option" where
  "cell_code code_text =
     (if code_text \<noteq> [] then
        (case re_search False (Grp 1 (Rep Digit 3 (Some 15) True)) code_text of
           Some code_match \<Rightarrow> group code_text code_match 1
         | None \<Rightarrow> None)
      else None)"

definition cell_qty :: "string \<Rightarrow> int option" where
  "cell_qty qty_text =
     (if qty_text \<noteq> [] then
        (case re_search False (Grp 1 (Rep Digit 1 (Some 4) True)) qty_text of
           Some qm \<Rightarrow> map_option int_of_digits (group qty_text qm 1)
         | None \<Rightarrow> None)
      else None)"

definition cell_amount :: "string \<Rightarrow> decimal option" where
  "cell_amount amount_text = (if amount_text \<noteq> [] then to_dec amount_text else None)"

definition cell_unit :: "string \<Rightarrow> string option" where
  "cell_unit type_text =
     (if type_text \<noteq> [] then
        (case re_search True table_unit_pat type_text of
           Some unit_match \<Rightarrow> map_option upper (group type_text unit_match 1)
         | None \<Rightarrow> Some (upper type_text))
      else None)"

text \<open>\<^verbatim>\<open>qty_val or 1\<close>\<close>

definition qty_or_one :: "int option \<Rightarrow> int" where
  "qty_or_one qty_val = (case qty_val of None \<Rightarrow> 1 | Some q \<Rightarrow> if q \<noteq> 0 then q else 1)"

text \<open>The item of a body row; \<open>None\<close> for a row that is skipped.\<close>

definition row_item :: "(string \<times> pyfloat \<times> pyfloat) list \<Rightarrow> tok list \<Rightarrow> item option" where
  "row_item ranges lw =
     (let desc = strip (cell_text ranges lw ''description'') in
      if desc = [] then None
      else
        (let item_code = cell_code (strip (cell_text ranges lw ''code''));
             qty_val = cell_qty (strip (remove_commas (cell_text ranges lw ''qty'')));
             rate_val = cell_amount (strip (cell_text ranges lw ''rate''));
             value_val = cell_amount (strip (cell_text ranges lw ''value''));
             unit_val = cell_unit (strip (cell_text ranges lw ''type''))
         in if desc = [] \<and> \<not> truthy_num value_val \<and> \<not> truthy_num rate_val then None
            else Some \<lparr>description = (if desc \<noteq> [] then Some (take 255 desc) else None),
                       code = item_code, unit = unit_val, qty = qty_or_one qty_val,
                       rate = rate_val, item_value = value_val\<rparr>))"

text \<open>The items of one page: none without words, without a header line or without a column.
  The rows after the header line are read up to the first summary line.\<close>

definition page_items :: "pdf_word list \<Rightarrow> item list" where
  "page_items page_words =
     (if page_words = [] then []
      else
        (let ol = ordered_lines page_words in
         case find_index (\<lambda>lw. keyword_count table_header_keywords (joined lw) \<ge> 3) ol of
           None \<Rightarrow> []
         | Some header_idx \<Rightarrow>
             (let columns = find_columns (ol ! header_idx) in
              if columns = [] then []
              else
                (let ranges = build_ranges (sort_key snd columns);
                     body = takeWhile (\<lambda>lw. \<not> matched (re_search True table_summary_pat (joined lw)))
                              (drop (Suc header_idx) ol)
                 in List.map_filter (row_item ranges) body))))"

text \<open>\<^verbatim>\<open>_extract_items_with_coordinates\<close> on the words of the document's pages.\<close>

definition extract_items_with_coordinates :: "pdf_word list list \<Rightarrow> item list" where
  "extract_items_with_coordinates pages = concat (map page_items pages)"

section \<open>What the properties speak of\<close>

text \<open>The amounts of an item that are present are not negative.\<close>

definition amounts_nonneg :: "item \<Rightarrow> bool" where
  "amounts_nonneg it =
     ((case item_value it of None \<Rightarrow> True | Some v \<Rightarrow> Finite 0 \<le> v)
      \<and> (case rate it of None \<Rightarrow> True | Some v \<Rightarrow> Finite 0 \<le> v))"

definition starts_with_minus :: "string \<Rightarrow> bool" where
  "starts_with_minus s = (case s of [] \<Rightarrow> False | c # _ \<Rightarrow> c = CHR ''-'')"

text \<open>A whole number.\<close>

definition whole :: "pyfloat \<Rightarrow> bool" where
  "whole x = (case x of Finite a \<Rightarrow> a = of_int \<lfloor>a\<rfloor> | PInf \<Rightarrow> False | NInf \<Rightarrow> False)"

text \<open>A rational that is a float, its magnitude below 2 to the power 1023: twice the
  number is a float still.\<close>

definition moderate_float :: "rat \<Rightarrow> bool" where
  "moderate_float x = (float_of_rat x = Finite x \<and> \<bar>x\<bar> < power_int 2 1023)"

text \<open>The bounds of a column range.\<close>

definition range_lower :: "string \<times> pyfloat \<times> pyfloat \<Rightarrow> pyfloat" where
  "range_lower r = fst (snd r)"

definition range_upper :: "string \<times> pyfloat \<times> pyfloat \<Rightarrow> pyfloat" where
  "range_upper r = snd (snd r)"

text \<open>The subtotal \<^verbatim>\<open>parse_invoice_data\<close> returns, or the exception it raises.\<close>

definition returned_subtotal :: "string \<Rightarrow> exn + decimal option" where
  "returned_subtotal txt =
     (case parse_invoice_amounts txt of Inl e \<Rightarrow> Inl e | Inr r \<Rightarrow> Inr (a_subtotal r))"

subsection \<open>Scenario A: an item line with a digit in its description\<close>

definition scenario_a_line :: string where
  "scenario_a_line =
     ''1  550213  Industrial Valve 2'' @ [CHR 0x22] @ ''  NOS  4  125000.00  500000.00''"

text \<open>The line after the serial number and the item code.\<close>

definition scenario_a_rest :: string where
  "scenario_a_rest = ''Industrial Valve 2'' @ [CHR 0x22] @ ''  NOS  4  125000.00  500000.00''"

text \<open>The item the specification expects, and the item the parser builds.\<close>

definition scenario_a_claimed :: item where
  "scenario_a_claimed =
     \<lparr>description = Some (''Industrial Valve 2'' @ [CHR 0x22]), code = Some ''550213'',
      unit = Some ''NOS'', qty = 4, rate = Some (Finite 125000),
      item_value = Some (Finite 500000)\<rparr>"

definition scenario_a_item :: item where
  "scenario_a_item =
     \<lparr>description = Some (''Industrial Valve 2'' @ [CHR 0x22]), code = Some ''550213'',
      unit = Some ''NOS'', qty = 2, rate = Some (Finite 4),
      item_value = Some (Finite 500000)\<rparr>"

text \<open>The line under a header line of the item section.\<close>

definition scenario_a_text :: string where
  "scenario_a_text = ''Sr Code Description Qty Rate Value'' @ [CHR 0x0A] @ scenario_a_line"

subsection \<open>An item line with two numbers\<close>

definition bolt_line :: string where
  "bolt_line = ''2  Bolt  5  250.00''"

definition bolt_item :: item where
  "bolt_item =
     \<lparr>description = Some ''Bolt 5'', code = None, unit = None, qty = 5, rate = None,
      item_value = Some (Finite 250)\<rparr>"

subsection \<open>Scenario C, with and without an earlier net value\<close>

definition net_value_line :: string where
  "net_value_line = ''Net Value        TZS 1,250,000.00''"

definition earlier_net_value_text :: string where
  "earlier_net_value_text = ''Net Value 5'' @ [CHR 0x0A] @ net_value_line"

subsection \<open>A total of zero\<close>

definition zero_total_text :: string where
  "zero_total_text = ''Grand Total 0.00''"

text \<open>What \<^verbatim>\<open>parse_invoice_data\<close> returns for that text: the total, no items, and the
  first line as the seller's name.\<close>

definition zero_total_parsed :: parsed where
  "zero_total_parsed =
     empty_parsed\<lparr>p_total := Some (Finite 0), p_seller_name := Some zero_total_text\<rparr>"

text \<open>A parsed dict with a total that is not zero and rounds to the float zero.\<close>

definition tiny_total_parsed :: parsed where
  "tiny_total_parsed = empty_parsed\<lparr>p_total := Some (Finite (1 / 10 ^ 324))\<rparr>"

subsection \<open>A page with a discount row\<close>

definition discount_page :: "pdf_word list" where
  "discount_page =
     [(50, 100, 60, 110, ''Sr'', 0, 0, 0), (120, 100, 180, 110, ''Description'', 0, 0, 1),
      (300, 100, 320, 110, ''Qty'', 0, 0, 2), (400, 100, 430, 110, ''Value'', 0, 0, 3),
      (50, 120, 55, 130, ''1'', 0, 1, 0), (120, 120, 170, 130, ''Discount'', 0, 1, 1),
      (300, 120, 305, 130, ''0'', 0, 1, 2), (400, 120, 440, 130, ''-500.00'', 0, 1, 3)]"

definition discount_item :: item where
  "discount_item =
     \<lparr>description = Some ''Discount'', code = None, unit = None, qty = 1, rate = None,
      item_value = Some (Finite (- 500))\<rparr>"

subsection \<open>Two columns\<close>

definition two_columns :: "(string \<times> rat) list" where
  "two_columns = [(''sr'', 50), (''description'', 120)]"

section \<open>Properties of the numbers\<close>

subsection \<open>The order of the extended rationals\<close>

lemma xrat_le_simps [simp]:
  "Finite a \<le> Finite b \<longleftrightarrow> a \<le> b" "Finite a \<le> PInf" "NInf \<le> x" "x \<le> PInf"
  "\<not> PInf \<le> Finite a" "\<not> Finite a \<le> NInf" "\<not> PInf \<le> NInf"
  by (auto simp: less_eq_xrat_def split: xrat.splits)

lemma xrat_less_simps [simp]:
  "Finite a < Finite b \<longleftrightarrow> a < b" "Finite a < PInf" "NInf < Finite a" "NInf < PInf"
  "\<not> PInf < x" "\<not> x < NInf"
  by (auto simp: less_xrat_def less_eq_xrat_def split: xrat.splits)

subsection \<open>Digits and logarithms\<close>

lemma digit_count_bounds:
  assumes "2 \<le> b" and "0 < n"
  shows "1 \<le> digit_count b n \<and> b ^ nat (digit_count b n - 1) \<le> n \<and> n < b ^ nat (digit_count b n)"
  using assms
proof (induction b n rule: digit_count.induct)
  case (1 b n)
  show ?case
  proof (cases "n div b \<le> 0")
    case True
    then have lt: "n < b" using "1.prems"
      using pos_imp_zdiv_pos_iff [of b n] by auto
    have "digit_count b (n div b) = 0" using True by (simp add: digit_count.simps)
    then have "digit_count b n = 1" using "1.prems" by (subst digit_count.simps) simp
    then show ?thesis using lt "1.prems" by simp
  next
    case False
    then have pos: "0 < n div b" by simp
    define k where "k = digit_count b (n div b)"
    from "1.IH" [OF _ "1.prems"(1) pos] "1.prems"
    have ih: "1 \<le> k" "b ^ nat (k - 1) \<le> n div b" "n div b < b ^ nat k"
      by (auto simp: k_def)
    have dc: "digit_count b n = k + 1" using "1.prems" unfolding k_def
      by (subst digit_count.simps) simp
    have nk: "nat k = Suc (nat (k - 1))" using ih(1) by simp
    have "b ^ nat k = b * b ^ nat (k - 1)" by (subst nk) simp
    also have "\<dots> \<le> b * (n div b)" using ih(2) "1.prems" by simp
    also have "\<dots> \<le> n"
    proof -
      have e: "b * (n div b) + n mod b = n" by simp
      have m: "0 \<le> n mod b" using "1.prems" by simp
      from e m show ?thesis by linarith
    qed
    finally have lo: "b ^ nat k \<le> n" .
    have "n div b + 1 \<le> b ^ nat k" using ih(3) by simp
    then have "b * (n div b + 1) \<le> b * b ^ nat k" using "1.prems" by simp
    moreover have "n < b * (n div b + 1)"
    proof -
      have e: "b * (n div b) + n mod b = n" by simp
      have m: "n mod b < b" using "1.prems" by simp
      have "b * (n div b + 1) = b * (n div b) + b" by (simp add: algebra_simps)
      with e m show ?thesis by linarith
    qed
    ultimately have hi: "n < b ^ nat (k + 1)" using ih(1) by (simp add: nat_add_distrib)
    show ?thesis using lo hi ih(1) by (simp add: dc)
  qed
qed


lemma digit_count_power_int:
  assumes "2 \<le> b" and "0 < n"
  shows "power_int (of_int b :: rat) (digit_count b n - 1) \<le> of_int n"
    and "of_int n < power_int (of_int b :: rat) (digit_count b n)"
proof -
  from digit_count_bounds [OF assms]
  have k: "1 \<le> digit_count b n" and lo: "b ^ nat (digit_count b n - 1) \<le> n"
    and hi: "n < b ^ nat (digit_count b n)" by simp_all
  have "(of_int (b ^ nat (digit_count b n - 1)) :: rat) \<le> of_int n"
    using lo by (simp only: of_int_le_iff)
  then show "power_int (of_int b :: rat) (digit_count b n - 1) \<le> of_int n"
    using k by (simp add: power_int_def)
  have "(of_int n :: rat) < of_int (b ^ nat (digit_count b n))"
    using hi by (simp only: of_int_less_iff)
  then show "of_int n < power_int (of_int b :: rat) (digit_count b n)"
    using k by (simp add: power_int_def)
qed

lemma floor_log_bounds:
  assumes b: "2 \<le> b" and q: "0 < q"
  shows "power_int (of_int b) (floor_log b q) \<le> q"
    and "q < power_int (of_int b) (floor_log b q + 1)"
proof -
  obtain n d where nd: "quotient_of q = (n, d)" by (cases "quotient_of q")
  then have d: "0 < d" and qe: "q = of_int n / of_int d"
    by (simp_all add: quotient_of_denom_pos quotient_of_div)
  have n: "0 < n" using q d qe by (simp add: zero_less_divide_iff)
  define B :: rat where "B = of_int b"
  have B: "0 < B" "B \<noteq> 0" using b by (simp_all add: B_def)
  define ln where "ln = digit_count b n"
  define ld where "ld = digit_count b d"
  note bn = digit_count_power_int [OF b n, folded B_def ln_def]
  note bd = digit_count_power_int [OF b d, folded B_def ld_def]
  have dpos: "(0::rat) < of_int d" using d by simp
  have pp: "\<And>k. 0 < power_int B k" using B by simp
  have up: "q < power_int B (ln - ld + 1)"
  proof -
    have "q * of_int d = of_int n" using qe dpos by simp
    also have "\<dots> < power_int B ln" by (rule bn(2))
    also have "\<dots> = power_int B (ln - ld + 1) * power_int B (ld - 1)"
      using B by (simp add: power_int_add [symmetric])
    also have "\<dots> \<le> power_int B (ln - ld + 1) * of_int d"
      using bd(1) pp [of "ln - ld + 1"] by simp
    finally show ?thesis using dpos by simp
  qed
  have lo: "power_int B (ln - ld - 1) < q"
  proof -
    have "power_int B (ln - ld - 1) * of_int d < power_int B (ln - ld - 1) * power_int B ld"
      using bd(2) pp [of "ln - ld - 1"] by simp
    also have "\<dots> = power_int B (ln - 1)"
      using B by (simp add: power_int_add [symmetric])
    also have "\<dots> \<le> of_int n" by (rule bn(1))
    also have "\<dots> = q * of_int d" using qe dpos by simp
    finally show ?thesis using dpos by simp
  qed
  have fl: "floor_log b q = (if power_int B (ln - ld) \<le> q then ln - ld else ln - ld - 1)"
    by (simp add: floor_log_def nd Let_def B_def ln_def ld_def)
  show "power_int (of_int b) (floor_log b q) \<le> q"
    using lo by (simp add: fl B_def [symmetric])
  show "q < power_int (of_int b) (floor_log b q + 1)"
    using up by (simp add: fl B_def [symmetric] not_le)
qed

lemma power_int_less_cancel:
  fixes B :: rat
  assumes "1 < B" and "power_int B m < power_int B n"
  shows "m < n"
proof (rule ccontr)
  assume "\<not> m < n"
  then have "n \<le> m" by simp
  from power_int_increasing [OF this, of B] assms show False by simp
qed

lemma floor_log_unique:
  assumes b: "2 \<le> b" and lo: "power_int (of_int b) e \<le> q" and hi: "q < power_int (of_int b) (e + 1)"
  shows "floor_log b q = e"
proof -
  define B :: rat where "B = of_int b"
  have B: "1 < B" using b by (simp add: B_def)
  have "0 < power_int B e" using B by simp
  then have q: "0 < q" using lo by (simp add: B_def)
  note f = floor_log_bounds [OF b q, folded B_def]
  have "power_int B (floor_log b q) < power_int B (e + 1)"
    using f(1) hi by (simp add: B_def)
  with B have a: "floor_log b q < e + 1" by (rule power_int_less_cancel)
  have "power_int B e < power_int B (floor_log b q + 1)"
    using f(2) lo by (simp add: B_def)
  with B have "e < floor_log b q + 1" by (rule power_int_less_cancel)
  with a show ?thesis by simp
qed


lemma floor_log_mono:
  assumes b: "2 \<le> b" and q: "0 < q" and le: "q \<le> q'"
  shows "floor_log b q \<le> floor_log b q'"
proof (rule ccontr)
  assume "\<not> floor_log b q \<le> floor_log b q'"
  then have "floor_log b q' + 1 \<le> floor_log b q" by simp
  from power_int_increasing [OF this, of "of_int b :: rat"] b
  have "power_int (of_int b :: rat) (floor_log b q' + 1) \<le> power_int (of_int b) (floor_log b q)"
    by simp
  also have "\<dots> \<le> q" by (rule floor_log_bounds(1) [OF b q])
  also have "\<dots> \<le> q'" by (rule le)
  also have "\<dots> < power_int (of_int b) (floor_log b q' + 1)"
    using q le by (intro floor_log_bounds(2) [OF b]) simp
  finally show False by simp
qed

lemma round_half_even_of_int [simp]: "round_half_even (of_int n) = n"
  by (simp add: round_half_even_def)

lemma round_half_even_range: "\<lfloor>x\<rfloor> \<le> round_half_even x" "round_half_even x \<le> \<lfloor>x\<rfloor> + 1"
  by (simp_all add: round_half_even_def Let_def)

lemma round_half_even_mono:
  assumes "x \<le> y"
  shows "round_half_even x \<le> round_half_even y"
proof (cases "\<lfloor>x\<rfloor> = \<lfloor>y\<rfloor>")
  case True
  then show ?thesis using assms by (auto simp: round_half_even_def Let_def)
next
  case False
  then have "\<lfloor>x\<rfloor> < \<lfloor>y\<rfloor>" using floor_mono [OF assms] by simp
  then have "round_half_even x \<le> \<lfloor>y\<rfloor>" using round_half_even_range(2) [of x] by simp
  then show ?thesis using round_half_even_range(1) [of y] by simp
qed

lemma round_half_even_ge: "of_int n \<le> x \<Longrightarrow> n \<le> round_half_even x"
  using round_half_even_mono [of "of_int n" x] by simp

lemma round_half_even_le: "x \<le> of_int n \<Longrightarrow> round_half_even x \<le> n"
  using round_half_even_mono [of x "of_int n"] by simp

lemma round_half_even_minus: "round_half_even (- x) = - round_half_even x"
proof (cases "x \<in> \<int>")
  case True
  then obtain n where "x = of_int n" by (auto simp: Ints_def)
  then have "- x = of_int (- n)" by simp
  then show ?thesis using \<open>x = of_int n\<close> by (simp only: round_half_even_of_int)
next
  case False
  then have ne: "x \<noteq> of_int \<lfloor>x\<rfloor>" by (metis Ints_of_int)
  then have f: "\<lfloor>- x\<rfloor> = - \<lfloor>x\<rfloor> - 1"
    by (simp add: floor_minus ceiling_altdef)
  show ?thesis
    by (auto simp: round_half_even_def Let_def f)
qed

lemma round_half_even_zero_iff: "round_half_even x = 0 \<longleftrightarrow> \<bar>x\<bar> \<le> 1 / 2"
proof -
  define f where "f = \<lfloor>x\<rfloor>"
  have fx: "of_int f \<le> x" "x < of_int f + 1"
    using floor_correct [of x] by (simp_all add: f_def)
  have r: "round_half_even x =
             (if x - of_int f < 1 / 2 then f else if 1 / 2 < x - of_int f then f + 1
              else if even f then f else f + 1)"
    by (simp add: round_half_even_def Let_def f_def)
  consider "f \<le> - 2" | "f = - 1" | "f = 0" | "1 \<le> f" by linarith
  then show ?thesis
  proof cases
    case 1
    then have "(of_int f :: rat) \<le> - 2" by (metis of_int_le_iff of_int_minus of_int_numeral)
    moreover have "round_half_even x \<le> f + 1" by (simp add: r)
    ultimately show ?thesis using fx 1 by auto
  next
    case 2
    then show ?thesis using fx r by (auto split: if_splits)
  next
    case 3
    then show ?thesis using fx r by (auto split: if_splits)
  next
    case 4
    then have "(1 :: rat) \<le> of_int f" by (metis of_int_le_iff of_int_1)
    moreover have "f \<le> round_half_even x" by (simp add: r)
    ultimately show ?thesis using fx 4 by auto
  qed
qed


lemma ulp_pos: "0 < ulp q"
  by (simp add: ulp_def)

lemma binade_minus [simp]: "binade (- q) = binade q"
  by (simp add: binade_def)

lemma ulp_minus [simp]: "ulp (- q) = ulp q"
  by (simp add: ulp_def)

lemma round_to_ulp_minus: "round_to_ulp (- q) = - round_to_ulp q"
  by (simp add: round_to_ulp_def round_half_even_minus)

lemma round_to_ulp_zero [simp]: "round_to_ulp 0 = 0"
  by (simp add: round_to_ulp_def round_half_even_def)

lemma binade_mono:
  assumes "0 < q" and "q \<le> q'"
  shows "binade q \<le> binade q'"
  using floor_log_mono [of 2 q q'] assms by (simp add: binade_def)

lemma binade_ge: "- 1022 \<le> binade q"
  by (simp add: binade_def)

lemma less_next_binade:
  assumes "0 < q"
  shows "q < power_int 2 (binade q + 1)"
proof -
  have "q < power_int 2 (floor_log 2 q + 1)"
    using floor_log_bounds(2) [of 2 q] assms by simp
  also have "\<dots> \<le> power_int 2 (binade q + 1)"
    using assms by (intro power_int_increasing) (simp_all add: binade_def)
  finally show ?thesis .
qed

lemma ulp_times: "of_int (2 ^ 52) * ulp q = power_int 2 (binade q)"
  "of_int (2 ^ 53) * ulp q = power_int 2 (binade q + 1)"
proof -
  have a: "(of_int (2 ^ 52) :: rat) = power_int 2 52" by (simp add: power_int_def)
  have b: "(of_int (2 ^ 53) :: rat) = power_int 2 53" by (simp add: power_int_def)
  show "of_int (2 ^ 52) * ulp q = power_int 2 (binade q)"
    unfolding a ulp_def by (subst power_int_add [symmetric]) simp_all
  show "of_int (2 ^ 53) * ulp q = power_int 2 (binade q + 1)"
    unfolding b ulp_def by (subst power_int_add [symmetric]) (simp_all add: add.commute)
qed

lemma round_to_ulp_upper:
  assumes "0 < q"
  shows "round_to_ulp q \<le> power_int 2 (binade q + 1)"
proof -
  have "q \<le> of_int (2 ^ 53) * ulp q"
    using less_next_binade [OF assms] by (simp only: ulp_times)
  then have "q / ulp q \<le> of_int (2 ^ 53)"
    using ulp_pos [of q] by (simp add: pos_divide_le_eq)
  then have "round_half_even (q / ulp q) \<le> 2 ^ 53" by (rule round_half_even_le)
  then have "(of_int (round_half_even (q / ulp q)) :: rat) \<le> of_int (2 ^ 53)"
    by (simp only: of_int_le_iff)
  then have "round_to_ulp q \<le> of_int (2 ^ 53) * ulp q"
    unfolding round_to_ulp_def using ulp_pos [of q] by (simp only: mult_le_cancel_right_pos)
  then show ?thesis by (simp only: ulp_times)
qed

lemma round_to_ulp_lower:
  assumes "power_int 2 (binade q) \<le> q"
  shows "power_int 2 (binade q) \<le> round_to_ulp q"
proof -
  have "of_int (2 ^ 52) * ulp q \<le> q" using assms by (simp only: ulp_times)
  then have "of_int (2 ^ 52) \<le> q / ulp q"
    using ulp_pos [of q] by (simp add: pos_le_divide_eq)
  then have "2 ^ 52 \<le> round_half_even (q / ulp q)" by (rule round_half_even_ge)
  then have "(of_int (2 ^ 52) :: rat) \<le> of_int (round_half_even (q / ulp q))"
    by (simp only: of_int_le_iff)
  then have "of_int (2 ^ 52) * ulp q \<le> round_to_ulp q"
    unfolding round_to_ulp_def using ulp_pos [of q] by (simp only: mult_le_cancel_right_pos)
  then show ?thesis by (simp only: ulp_times)
qed

lemma round_to_ulp_nonneg:
  assumes "0 \<le> q"
  shows "0 \<le> round_to_ulp q"
proof -
  have "0 \<le> q / ulp q" using assms ulp_pos [of q] by simp
  then have "0 \<le> round_half_even (q / ulp q)"
    using round_half_even_ge [of 0 "q / ulp q"] by simp
  then show ?thesis using ulp_pos [of q] by (simp add: round_to_ulp_def)
qed

lemma round_to_ulp_mono_pos:
  assumes q: "0 < q" and le: "q \<le> q'"
  shows "round_to_ulp q \<le> round_to_ulp q'"
proof (cases "binade q = binade q'")
  case True
  then have u: "ulp q' = ulp q" by (simp add: ulp_def)
  have "q / ulp q \<le> q' / ulp q" using le ulp_pos [of q] by (simp add: divide_right_mono)
  then have "round_half_even (q / ulp q) \<le> round_half_even (q' / ulp q)"
    by (rule round_half_even_mono)
  then have "(of_int (round_half_even (q / ulp q)) :: rat) \<le> of_int (round_half_even (q' / ulp q))"
    by (simp only: of_int_le_iff)
  then show ?thesis
    unfolding round_to_ulp_def u using ulp_pos [of q] by (simp only: mult_le_cancel_right_pos)
next
  case False
  then have lt: "binade q < binade q'" using binade_mono [OF q le] by simp
  have q': "0 < q'" using q le by simp
  have "- 1022 < binade q'" using lt binade_ge [of q] by simp
  then have "binade q' = floor_log 2 q'" using q' by (simp add: binade_def)
  then have low: "power_int 2 (binade q') \<le> q'"
    using floor_log_bounds(1) [of 2 q'] q' by simp
  have "round_to_ulp q \<le> power_int 2 (binade q + 1)" by (rule round_to_ulp_upper [OF q])
  also have "\<dots> \<le> power_int 2 (binade q')"
    using lt by (intro power_int_increasing) simp_all
  also have "\<dots> \<le> round_to_ulp q'" by (rule round_to_ulp_lower [OF low])
  finally show ?thesis .
qed

lemma round_to_ulp_mono:
  assumes "q \<le> q'"
  shows "round_to_ulp q \<le> round_to_ulp q'"
proof -
  consider "0 < q" | "q \<le> 0" "0 \<le> q'" | "q' < 0" by linarith
  then show ?thesis
  proof cases
    case 1
    then show ?thesis using assms by (rule round_to_ulp_mono_pos)
  next
    case 2
    have "0 \<le> round_to_ulp (- q)" using 2 by (intro round_to_ulp_nonneg) simp
    then have "round_to_ulp q \<le> 0" by (simp add: round_to_ulp_minus)
    also have "\<dots> \<le> round_to_ulp q'" using 2 by (intro round_to_ulp_nonneg)
    finally show ?thesis .
  next
    case 3
    then have "round_to_ulp (- q') \<le> round_to_ulp (- q)"
      using assms by (intro round_to_ulp_mono_pos) simp_all
    then show ?thesis by (simp add: round_to_ulp_minus)
  qed
qed

lemma float_of_rat_mono:
  assumes "q \<le> q'"
  shows "float_of_rat q \<le> float_of_rat q'"
proof -
  have e: "\<And>x. float_of_rat x =
             (if power_int 2 1024 \<le> round_to_ulp x then PInf
              else if round_to_ulp x \<le> - power_int 2 1024 then NInf
              else Finite (round_to_ulp x))"
    by (simp add: float_of_rat_def Let_def)
  have "(0::rat) < power_int 2 1024" by simp
  then show ?thesis
    using round_to_ulp_mono [OF assms] unfolding e by auto
qed


lemma float_of_rat_zero [simp]: "float_of_rat 0 = Finite 0"
  by (simp add: float_of_rat_def)

lemma float_of_rat_nonneg: "0 \<le> q \<Longrightarrow> Finite 0 \<le> float_of_rat q"
  using float_of_rat_mono [of 0 q] by simp

lemma subnormal_binade:
  assumes "q \<noteq> 0" and "\<bar>q\<bar> < power_int 2 (- 1022)"
  shows "binade q = - 1022"
proof -
  from assms have "0 < \<bar>q\<bar>" by simp
  from floor_log_bounds(1) [OF _ this, of 2] assms(2)
  have "power_int (2::rat) (floor_log 2 \<bar>q\<bar>) < power_int 2 (- 1022)" by simp
  then have "floor_log 2 \<bar>q\<bar> < - 1022" by (intro power_int_less_cancel [of 2]) simp_all
  then show ?thesis by (simp add: binade_def)
qed

lemma float_zero_iff: "float_of_rat q = Finite 0 \<longleftrightarrow> \<bar>q\<bar> \<le> power_int 2 (- 1075)"
proof (cases "q = 0")
  case True
  then show ?thesis by simp
next
  case False
  have p: "(0::rat) < power_int 2 1024" by simp
  have fz: "float_of_rat q = Finite 0 \<longleftrightarrow> round_half_even (q / ulp q) = 0"
    using False p ulp_pos [of q] by (auto simp: float_of_rat_def Let_def round_to_ulp_def)
  have "power_int (2::rat) (- 1074 - 1) = power_int 2 (- 1074) / power_int 2 1"
    by (rule power_int_diff) simp
  then have half: "power_int (2::rat) (- 1075) = power_int 2 (- 1074) / 2"
    by simp
  have lt: "power_int (2::rat) (- 1075) < power_int 2 (- 1022)"
    by (intro power_int_strict_increasing) simp_all
  show ?thesis
  proof
    assume "float_of_rat q = Finite 0"
    then have "\<bar>q / ulp q\<bar> \<le> 1 / 2" by (simp add: fz round_half_even_zero_iff)
    then have a: "\<bar>q\<bar> \<le> ulp q / 2" using ulp_pos [of q] by (simp add: field_simps)
    have "binade q = - 1022"
    proof (rule ccontr)
      assume "binade q \<noteq> - 1022"
      then have "- 1022 < binade q" using binade_ge [of q] by simp
      then have "binade q = floor_log 2 \<bar>q\<bar>" by (simp add: binade_def)
      then have "power_int 2 (binade q) \<le> \<bar>q\<bar>"
        using floor_log_bounds(1) [of 2 "\<bar>q\<bar>"] False by simp
      then have "of_int (2 ^ 52) * ulp q \<le> \<bar>q\<bar>" by (simp only: ulp_times)
      with a ulp_pos [of q] show False by simp
    qed
    then have "ulp q = power_int 2 (- 1074)" by (simp add: ulp_def)
    with a show "\<bar>q\<bar> \<le> power_int 2 (- 1075)" by (simp add: half)
  next
    assume a: "\<bar>q\<bar> \<le> power_int 2 (- 1075)"
    then have "binade q = - 1022" using lt False by (intro subnormal_binade) simp_all
    then have "ulp q = power_int 2 (- 1074)" by (simp add: ulp_def)
    then have "\<bar>q\<bar> \<le> ulp q / 2" using a by (simp add: half)
    then have "\<bar>q / ulp q\<bar> \<le> 1 / 2" using ulp_pos [of q] by (simp add: field_simps)
    then show "float_of_rat q = Finite 0" by (simp add: fz round_half_even_zero_iff)
  qed
qed


lemma float_of_rat_FiniteD:
  assumes "float_of_rat a = Finite b"
  shows "round_to_ulp a = b" and "\<bar>b\<bar> < power_int 2 1024"
  using assms by (auto simp: float_of_rat_def Let_def split: if_splits)

lemma float_of_rat_FiniteI:
  assumes "round_to_ulp a = a" and "\<bar>a\<bar> < power_int 2 1024"
  shows "float_of_rat a = Finite a"
  using assms by (auto simp: float_of_rat_def Let_def)

lemma floor_log_double:
  assumes "0 < q"
  shows "floor_log 2 (2 * q) = floor_log 2 q + 1"
proof (rule floor_log_unique)
  note f = floor_log_bounds [of 2 q, OF _ assms, simplified]
  have a: "\<And>k. power_int (2::rat) (k + 1) = 2 * power_int 2 k"
    by (subst power_int_add) simp_all
  show "power_int (of_int 2) (floor_log 2 q + 1) \<le> 2 * q"
    using f(1) by (simp add: a)
  have "2 * q < 2 * power_int 2 (floor_log 2 q + 1)" using f(2) by simp
  also have "\<dots> = power_int 2 (floor_log 2 q + 1 + 1)" by (simp only: a)
  finally show "2 * q < power_int (of_int 2) (floor_log 2 q + 1 + 1)" by simp
qed simp

lemma round_to_ulp_double:
  assumes r: "round_to_ulp a = a"
  shows "round_to_ulp (2 * a) = 2 * a"
proof (cases "a = 0")
  case True
  then show ?thesis by simp
next
  case False
  define m where "m = round_half_even (a / ulp a)"
  have am: "a = of_int m * ulp a" using r by (simp add: round_to_ulp_def m_def)
  have fl2: "floor_log 2 \<bar>2 * a\<bar> = floor_log 2 \<bar>a\<bar> + 1"
    using floor_log_double [of "\<bar>a\<bar>"] False by (simp add: abs_mult)
  have u0: "ulp a \<noteq> 0" using ulp_pos [of a] by simp
  have q: "a / ulp a = of_int m" using am u0 by (metis nonzero_mult_div_cancel_right)
  have a2: "2 * a = of_int (2 * m) * ulp a" using am by simp
  show ?thesis
  proof (cases "- 1022 \<le> floor_log 2 \<bar>a\<bar>")
    case True
    then have "binade (2 * a) = binade a + 1" by (simp add: binade_def fl2)
    then have "ulp (2 * a) = power_int 2 (binade a - 52 + 1)" by (simp add: ulp_def algebra_simps)
    also have "\<dots> = 2 * ulp a" unfolding ulp_def by (subst power_int_add) simp_all
    finally have u: "ulp (2 * a) = 2 * ulp a" .
    have "2 * a / ulp (2 * a) = of_int m" using q u0 by (simp add: u)
    then have "round_to_ulp (2 * a) = of_int m * (2 * ulp a)"
      by (simp add: round_to_ulp_def u)
    also have "\<dots> = 2 * a" by (subst (2) am) simp
    finally show ?thesis .
  next
    case False
    then have "binade (2 * a) = binade a" by (simp add: binade_def fl2)
    then have u: "ulp (2 * a) = ulp a" by (simp add: ulp_def)
    have "2 * a / ulp (2 * a) = of_int (2 * m)" using q u0 by (simp add: u)
    then have "round_half_even (2 * a / ulp (2 * a)) = 2 * m"
      by (simp only: round_half_even_of_int)
    then have "round_to_ulp (2 * a) = of_int (2 * m) * ulp a"
      by (simp add: round_to_ulp_def u)
    then show ?thesis by (simp only: a2 [symmetric])
  qed
qed

lemma float_double:
  assumes "float_of_rat a = Finite a" and "\<bar>a\<bar> < power_int 2 1023"
  shows "float_of_rat (2 * a) = Finite (2 * a)"
proof (rule float_of_rat_FiniteI)
  show "round_to_ulp (2 * a) = 2 * a"
    using float_of_rat_FiniteD(1) [OF assms(1)] by (rule round_to_ulp_double)
  have "power_int (2::rat) (1023 + 1) = power_int 2 1023 * power_int 2 1"
    by (rule power_int_add) simp
  then show "\<bar>2 * a\<bar> < power_int 2 1024" using assms(2) by (simp add: abs_mult)
qed

lemma float_midpoint:
  assumes a: "float_of_rat a = Finite a" "\<bar>a\<bar> < power_int 2 1023"
    and b: "float_of_rat b = Finite b" "\<bar>b\<bar> < power_int 2 1023"
    and le: "a \<le> b"
  shows "\<exists>c. float_div (float_of_rat (a + b)) 2 = Finite c \<and> a \<le> c \<and> c \<le> b"
proof -
  have "float_of_rat (2 * a) \<le> float_of_rat (a + b)"
    using le by (intro float_of_rat_mono) simp
  then have lo: "Finite (2 * a) \<le> float_of_rat (a + b)"
    by (simp only: float_double [OF a])
  have "float_of_rat (a + b) \<le> float_of_rat (2 * b)"
    using le by (intro float_of_rat_mono) simp
  then have hi: "float_of_rat (a + b) \<le> Finite (2 * b)"
    by (simp only: float_double [OF b])
  from lo hi obtain s where s: "float_of_rat (a + b) = Finite s" "2 * a \<le> s" "s \<le> 2 * b"
    by (cases "float_of_rat (a + b)") simp_all
  have "float_of_rat a \<le> float_of_rat (s / 2)" using s(2) by (intro float_of_rat_mono) simp
  then have lo2: "Finite a \<le> float_of_rat (s / 2)" by (simp only: a)
  have "float_of_rat (s / 2) \<le> float_of_rat b" using s(3) by (intro float_of_rat_mono) simp
  then have hi2: "float_of_rat (s / 2) \<le> Finite b" by (simp only: b)
  from lo2 hi2 obtain c where "float_of_rat (s / 2) = Finite c" "a \<le> c" "c \<le> b"
    by (cases "float_of_rat (s / 2)") simp_all
  then show ?thesis by (simp add: float_div_def s(1))
qed

subsection \<open>Decimals read back from floats\<close>

lemma candidates_nonneg:
  assumes "0 < x" and "d \<in> set (candidates x n)"
  shows "0 \<le> d"
proof -
  define s :: rat where "s = power_int 10 (floor_log 10 x - n + 1)"
  have s: "0 < s" by (simp add: s_def)
  then have m: "0 \<le> x / s" using assms(1) by simp
  then have a: "0 \<le> round_half_even (x / s)" using round_half_even_ge [of 0 "x / s"] by simp
  have b: "0 \<le> \<lfloor>x / s\<rfloor>" using m by simp
  from assms(2) have "d = of_int (round_half_even (x / s)) * s
      \<or> d = of_int (\<lfloor>x / s\<rfloor> + 1) * s \<or> d = of_int \<lfloor>x / s\<rfloor> * s"
    by (auto simp: candidates_def Let_def s_def split: if_splits)
  then show ?thesis using a b s by auto
qed

lemma repr_pos_nonneg:
  assumes "0 < x"
  shows "0 \<le> repr_pos x"
proof -
  define ds where "ds = filter (\<lambda>d. float_of_rat d = Finite x)
             (concat (map (candidates x)
                        [1, 2, 3, 4, 5, 6, 7, 8, 9, 10, 11, 12, 13, 14, 15, 16, 17]))"
  have r: "repr_pos x = (case ds of [] \<Rightarrow> x | d # _ \<Rightarrow> d)"
    by (simp add: repr_pos_def ds_def)
  show ?thesis
  proof (cases ds)
    case Nil
    then show ?thesis using assms by (simp add: r)
  next
    case (Cons d ds')
    then have "d \<in> set ds" by simp
    then obtain n where "d \<in> set (candidates x n)" unfolding ds_def by auto
    then show ?thesis using candidates_nonneg [OF assms] Cons by (simp add: r)
  qed
qed

lemma decimal_of_float_nonneg:
  assumes "Finite 0 \<le> x"
  shows "Finite 0 \<le> decimal_of_float x"
  using assms repr_pos_nonneg by (cases x) (auto simp: decimal_of_float_def)

lemma float_div_nonneg:
  assumes "Finite 0 \<le> x" and "0 < d"
  shows "Finite 0 \<le> float_div x d"
  using assms float_of_rat_nonneg by (cases x) (auto simp: float_div_def)

section \<open>Properties of the entry point\<close>

lemma truthy_float_if: "truthy_num (float_if v) = nonzero_as_float v"
proof (cases v)
  case None
  then show ?thesis by (simp add: float_if_def truthy_num_def nonzero_as_float_def)
next
  case (Some d)
  show ?thesis
  proof (cases d)
    case (Finite t)
    have "power_int (2::rat) (- 1075) < \<bar>t\<bar> \<Longrightarrow> t \<noteq> 0" by auto
    then show ?thesis using Some Finite float_zero_iff [of t]
      by (auto simp: float_if_def truthy_num_def nonzero_as_float_def float_of_decimal_def not_le)
  qed (simp_all add: Some float_if_def truthy_num_def nonzero_as_float_def float_of_decimal_def)
qed

text \<open>
  C10. A non-empty buffer whose lower-cased file name ends with an image extension is
  rejected with \<^verbatim>\<open>image_file_not_supported\<close>, whatever the buffer holds (also the PDF
  magic bytes) and whatever the collaborators would do: they are not consulted.
\<close>

theorem image_extension_first:
  assumes "file_bytes \<noteq> []"
    and "\<exists>ext \<in> set image_extensions. endswith (lower filename) ext"
  shows "extract_from_bytes pdf_text parse coord file_bytes filename =
           failure image_file_not_supported
             ''Image files are not supported. Please convert to PDF or enter details manually.'' ''''"
  using assms by (simp add: extract_from_bytes_def is_image_def list_ex_iff)

theorem image_extension_first_witness:
  "''%PDF-1.4'' \<noteq> [] \<and> (\<exists>ext \<in> set image_extensions. endswith (lower ''Scan.PNG'') ext)
   \<and> (\<forall>pdf_text parse coord.
        extract_from_bytes pdf_text parse coord ''%PDF-1.4'' ''Scan.PNG'' =
          failure image_file_not_supported
            ''Image files are not supported. Please convert to PDF or enter details manually.'' [])"
proof -
  have a: "''%PDF-1.4'' \<noteq> ([]::string)" by simp
  have b: "\<exists>ext \<in> set image_extensions. endswith (lower ''Scan.PNG'') ext"
    by code_simp
  from image_extension_first [OF a b] a b show ?thesis by blast
qed

text \<open>
  C8. When text extraction succeeded and the parsing stage raises, the exception does not
  leave the entry point: the result is the failure record with \<^verbatim>\<open>parsing_failed\<close>, its
  message, and the extracted text as \<^verbatim>\<open>raw_text\<close>.
\<close>

theorem parsing_exception_caught:
  assumes "text_extracted pdf_text file_bytes filename text"
    and "parse text = Inl e"
  shows "extract_from_bytes pdf_text parse coord file_bytes filename =
           \<lparr>success = False, error = Some parsing_failed,
            message = ''Could not extract structured data from PDF.'',
            ocr_available = False, r_header = None, r_items = [], raw_text = text\<rparr>"
  using assms by (simp add: extract_from_bytes_def text_extracted_def failure_def)

theorem parsing_exception_caught_witness:
  "text_extracted (\<lambda>b. Inr ''1 x 5'') ''%PDF-1.4'' ''invoice.pdf'' ''1 x 5''
   \<and> (\<lambda>t. Inl ''OverflowError'' :: string + parsed) ''1 x 5'' = Inl ''OverflowError''
   \<and> extract_from_bytes (\<lambda>b. Inr ''1 x 5'') (\<lambda>t. Inl ''OverflowError'') (\<lambda>b. [])
        ''%PDF-1.4'' ''invoice.pdf'' =
           \<lparr>success = False, error = Some parsing_failed,
            message = ''Could not extract structured data from PDF.'',
            ocr_available = False, r_header = None, r_items = [], raw_text = ''1 x 5''\<rparr>"
proof -
  have a: "text_extracted (\<lambda>b. Inr ''1 x 5'') ''%PDF-1.4'' ''invoice.pdf'' ''1 x 5''"
    by code_simp
  have b: "(\<lambda>t. Inl ''OverflowError'' :: string + parsed) ''1 x 5'' = Inl ''OverflowError''"
    by simp
  from parsing_exception_caught [OF a b, of "\<lambda>b. []"] a show ?thesis by simp
qed

subsection \<open>A total of zero, and a total that rounds to zero\<close>

lemma zero_total_amounts:
  "parse_invoice_amounts zero_total_text =
     Inr \<lparr>a_subtotal = None, a_tax = None, a_total = Some (Finite 0), a_items = []\<rparr>"
  by code_simp

lemma zero_total_extracted:
  "text_extracted (\<lambda>b. Inr zero_total_text) ''%PDF-1.4'' ''invoice.pdf'' zero_total_text"
  by code_simp

lemma zero_total_fields:
  "p_customer_name zero_total_parsed = None" "p_invoice_no zero_total_parsed = None"
  "p_subtotal zero_total_parsed = None" "p_tax zero_total_parsed = None"
  "p_total zero_total_parsed = Some (Finite 0)" "p_items zero_total_parsed = []"
  by (simp_all add: zero_total_parsed_def empty_parsed_def)

lemma tiny_total_fields:
  "p_customer_name tiny_total_parsed = None" "p_invoice_no tiny_total_parsed = None"
  "p_total tiny_total_parsed = Some (Finite (1 / 10 ^ 324))" "p_items tiny_total_parsed = []"
  by (simp_all add: tiny_total_parsed_def empty_parsed_def)

lemma tiny_total_rounds_to_zero: "\<not> nonzero_as_float (Some (Finite (1 / 10 ^ 324)))"
  by code_simp

text \<open>
  C2, as stated: after a successful text extraction and a completed parse, success holds
  exactly when a customer name, an invoice number, a total or an item is present. It fails
  for the text \<^verbatim>\<open>Grand Total 0.00\<close>: the parser returns the total 0.00 and nothing else
  that counts; the total is present, and the entry point reports no success, since it tests
  the values' truth and a zero is false.
\<close>

theorem success_iff_present_counterexample:
  "parse_invoice_amounts zero_total_text =
     Inr \<lparr>a_subtotal = p_subtotal zero_total_parsed, a_tax = p_tax zero_total_parsed,
          a_total = p_total zero_total_parsed, a_items = p_items zero_total_parsed\<rparr>
   \<and> text_extracted (\<lambda>b. Inr zero_total_text) ''%PDF-1.4'' ''invoice.pdf'' zero_total_text
   \<and> data_present [] zero_total_parsed
   \<and> \<not> success (extract_from_bytes (\<lambda>b. Inr zero_total_text) (\<lambda>t. Inr zero_total_parsed)
                  (\<lambda>b. []) ''%PDF-1.4'' ''invoice.pdf'')"
  using zero_total_extracted
  by (simp add: zero_total_amounts extract_from_bytes_def text_extracted_def zero_total_fields
      make_header_def float_if_def truthy_num_def truthy_str_def data_present_def failure_def)

text \<open>
  C2, amended: after a successful text extraction and a completed parse, success holds
  exactly when the customer name or the invoice number is a non-empty string, or the total
  is not zero as a float (it is an infinity, or its magnitude is more than 2 to the power
  -1075), or there is an item; otherwise the result is the \<^verbatim>\<open>parsing_failed\<close> record,
  which still carries the extracted text.
\<close>

theorem success_iff_truthy:
  assumes "text_extracted pdf_text file_bytes filename text"
    and "parse text = Inr p"
  shows "(success (extract_from_bytes pdf_text parse coord file_bytes filename)
            \<longleftrightarrow> data_truthy (coord file_bytes) p)
         \<and> (\<not> data_truthy (coord file_bytes) p \<longrightarrow>
              extract_from_bytes pdf_text parse coord file_bytes filename =
                \<lparr>success = False, error = Some parsing_failed,
                 message = ''Could not extract structured data from PDF.'',
                 ocr_available = False, r_header = None, r_items = [], raw_text = text\<rparr>)"
  using assms
  by (auto simp add: extract_from_bytes_def text_extracted_def failure_def Let_def
      data_truthy_def final_items_def make_header_def truthy_float_if)

theorem success_iff_truthy_witness:
  "text_extracted (\<lambda>b. Inr zero_total_text) ''%PDF-1.4'' ''invoice.pdf'' zero_total_text
   \<and> \<not> data_truthy [] zero_total_parsed
   \<and> extract_from_bytes (\<lambda>b. Inr zero_total_text) (\<lambda>t. Inr zero_total_parsed) (\<lambda>b. [])
        ''%PDF-1.4'' ''invoice.pdf'' =
        \<lparr>success = False, error = Some parsing_failed,
         message = ''Could not extract structured data from PDF.'',
         ocr_available = False, r_header = None, r_items = [], raw_text = zero_total_text\<rparr>
   \<and> \<not> data_truthy [] tiny_total_parsed
   \<and> \<not> success (extract_from_bytes (\<lambda>b. Inr zero_total_text) (\<lambda>t. Inr tiny_total_parsed)
                  (\<lambda>b. []) ''%PDF-1.4'' ''invoice.pdf'')"
proof -
  have b: "(\<lambda>t. Inr zero_total_parsed :: string + parsed) zero_total_text = Inr zero_total_parsed"
    by simp
  have c: "\<not> data_truthy [] zero_total_parsed"
    by (simp add: data_truthy_def zero_total_fields truthy_str_def nonzero_as_float_def
        final_items_def)
  have d: "(\<lambda>t. Inr tiny_total_parsed :: string + parsed) zero_total_text = Inr tiny_total_parsed"
    by simp
  have e: "\<not> data_truthy [] tiny_total_parsed"
    using tiny_total_rounds_to_zero
    by (simp add: data_truthy_def tiny_total_fields truthy_str_def final_items_def)
  from success_iff_truthy [OF zero_total_extracted b, of "\<lambda>b. []"]
    success_iff_truthy [OF zero_total_extracted d, of "\<lambda>b. []"] zero_total_extracted c e
  show ?thesis by simp
qed

end
